theory Spec2Isabelle
  imports Main
begin

section \<open>Data model\<close>

text \<open>
  The module \<^verbatim>\<open>aiogram_storages.py\<close> keeps the finite-state-machine data of a chat bot
  in three SQL tables, \<^verbatim>\<open>aiogram_state\<close>, \<^verbatim>\<open>aiogram_data\<close> and \<^verbatim>\<open>aiogram_bucket\<close>. Each has
  the columns \<^verbatim>\<open>"user" BIGINT NOT NULL PRIMARY KEY\<close>, \<^verbatim>\<open>"chat" BIGINT NOT NULL\<close> and one
  text column. A row is the triple of its columns in declaration order (user, chat,
  text); a table is the list of its rows in row order. A table that has been dropped is
  \<open>None\<close>.

  Python values that travel through the storage (the \<^verbatim>\<open>data\<close> and \<^verbatim>\<open>bucket\<close> dictionaries
  and what \<^verbatim>\<open>jsonpickle.decode\<close> gives back) are of type \<open>pyval\<close>. A dictionary is an
  association list in insertion order with string keys. A finite float is held the
  way Python's \<^verbatim>\<open>repr\<close> shows it: a sign (true for negative), the digits of the shortest
  decimal that reads back as the float, and the position of the decimal point, so that
  the digits \<open>d1 d2 ...\<close> with the position \<open>p\<close> stand for \<open>0.d1d2... * 10 ^ p\<close>. A character
  of a string is a code point below 256.
\<close>

datatype pyval =
    PNone
  | PBool bool
  | PInt int
  | PFloat bool string int
  | PStr string
  | PList "pyval list"
  | PDict "(string \<times> pyval) list"

type_synonym dict = "(string \<times> pyval) list"

type_synonym row = "int \<times> int \<times> string"

type_synonym table = "row list"

text \<open>
  The exceptions that can leave a storage method: the error of \<^verbatim>\<open>check_address\<close> (the
  spec's AddressError), the
  driver's error for a statement on a table that does not exist (\<^verbatim>\<open>sqlite3.OperationalError\<close>,
  \<^verbatim>\<open>asyncpg.UndefinedTableError\<close>; the argument is the table's name), the driver's error for
  a NULL in a NOT NULL column, what \<^verbatim>\<open>jsonpickle.decode\<close> raises on a text it cannot read,
  and Python's \<^verbatim>\<open>AttributeError\<close> for \<^verbatim>\<open>.update\<close> on a value that is not a dictionary.
\<close>

datatype error =
    AddressError
  | NoSuchTable string
  | IntegrityError
  | DecodeError
  | AttributeError

text \<open>
  A storage object: \<open>db_connected\<close> tells whether \<^verbatim>\<open>self._db\<close> already holds a connection,
  the three other fields are the tables of the database the object is connected to.
  Every statement of the source is committed at once (the SQLite class calls
  \<^verbatim>\<open>commit\<close> after each data statement, asyncpg commits each statement by itself), so the
  model has no open transactions.
\<close>

record storage =
  db_connected :: bool
  aiogram_state :: "table option"
  aiogram_data :: "table option"
  aiogram_bucket :: "table option"

text \<open>
  \<^verbatim>\<open>jsonpickle\<close> is an imported library. Its two functions are a parameter of every
  operation that serialises: \<open>encode\<close> gives the stored text, \<open>decode\<close> reads it back or
  raises.
\<close>

record codec =
  encode :: "pyval \<Rightarrow> string"
  decode :: "string \<Rightarrow> error + pyval"

section \<open>What the storage classes inherit from \<^verbatim>\<open>BaseStorage\<close>\<close>

text \<open>
  Modelled from the spec: \<^verbatim>\<open>check_address\<close> is a method of \<^verbatim>\<open>BaseStorage\<close>, which belongs
  to the aiogram framework and is not part of the repository. The spec says that chat
  and user are either passed or defaulted, that both must be integers, and that the
  operation fails with an AddressError otherwise. An argument that is not passed is
  \<open>None\<close> and takes the value of the other one; with both absent there is no address
  and the call raises. A string argument is represented by the integer that \<^verbatim>\<open>int\<close>
  reads from it, so \<^verbatim>\<open>map(int, ...)\<close> is the identity here. Values are taken inside the
  range of the BIGINT columns.
\<close>

definition check_address :: "int option \<Rightarrow> int option \<Rightarrow> error + (int \<times> int)" where
  "check_address chat user =
     (case (chat, user) of
        (None, None) \<Rightarrow> Inl AddressError
      | (Some c, None) \<Rightarrow> Inr (c, c)
      | (None, Some u) \<Rightarrow> Inr (u, u)
      | (Some c, Some u) \<Rightarrow> Inr (c, u))"

text \<open>
  Modelled from the spec: \<^verbatim>\<open>resolve_state\<close> is a method of \<^verbatim>\<open>BaseStorage\<close> as well. The
  spec calls it the state-resolution normalisation applied to the state that is set and
  to the default that is returned; on the declared argument type (a string or
  \<^verbatim>\<open>None\<close>) it returns its argument.
\<close>

definition resolve_state :: "string option \<Rightarrow> string option" where
  "resolve_state v = v"

section \<open>The SQL statements\<close>

text \<open>
  Rows are kept in the order SQLite returns them, the order of insertion; an update
  leaves a row in its place. PostgreSQL promises no order for a query without
  \<^verbatim>\<open>ORDER BY\<close>; the model gives both classes the same one.

  \<^verbatim>\<open>INSERT INTO t VALUES(user, chat, v) ON CONFLICT ("user") DO UPDATE SET col = v\<close>:
  the row of the same user, if there is one, gets the new text and keeps its chat;
  otherwise a new row is appended.
\<close>

fun insert_on_conflict :: "int \<Rightarrow> int \<Rightarrow> string \<Rightarrow> table \<Rightarrow> table" where
  "insert_on_conflict user chat v [] = [(user, chat, v)]"
| "insert_on_conflict user chat v ((u, c, w) # rows) =
     (if u = user then (u, c, v) # rows else (u, c, w) # insert_on_conflict user chat v rows)"

text \<open>\<^verbatim>\<open>DELETE FROM t WHERE "chat"=? AND "user"=?\<close>\<close>

fun delete_where :: "int \<Rightarrow> int \<Rightarrow> table \<Rightarrow> table" where
  "delete_where chat user [] = []"
| "delete_where chat user ((u, c, w) # rows) =
     (if c = chat \<and> u = user then delete_where chat user rows
      else (u, c, w) # delete_where chat user rows)"

text \<open>
  \<^verbatim>\<open>SELECT col FROM t WHERE "chat"=? AND "user"=?\<close> read with \<^verbatim>\<open>fetchone\<close> (aiosqlite) or
  \<^verbatim>\<open>fetchval\<close> (asyncpg): the text column of the first matching row, \<open>None\<close> when no row
  matches.
\<close>

fun select_where :: "int \<Rightarrow> int \<Rightarrow> table \<Rightarrow> string option" where
  "select_where chat user [] = None"
| "select_where chat user ((u, c, w) # rows) =
     (if c = chat \<and> u = user then Some w else select_where chat user rows)"

text \<open>\<^verbatim>\<open>CREATE TABLE IF NOT EXISTS\<close>\<close>

definition create_table_if_not_exists :: "table option \<Rightarrow> table option" where
  "create_table_if_not_exists t = (case t of None \<Rightarrow> Some [] | Some rows \<Rightarrow> Some rows)"

section \<open>\<^verbatim>\<open>SQLiteStorage\<close>\<close>

definition SQLiteStorage_get_db :: "storage \<Rightarrow> storage" where
  "SQLiteStorage_get_db self =
     (if db_connected self then self
      else self\<lparr>db_connected := True,
                aiogram_state := create_table_if_not_exists (aiogram_state self),
                aiogram_data := create_table_if_not_exists (aiogram_data self),
                aiogram_bucket := create_table_if_not_exists (aiogram_bucket self)\<rparr>)"

definition SQLiteStorage_set_state ::
  "int option \<Rightarrow> int option \<Rightarrow> string option \<Rightarrow> storage \<Rightarrow> (error + unit) \<times> storage" where
  "SQLiteStorage_set_state chat user state self =
     (case check_address chat user of
        Inl e \<Rightarrow> (Inl e, self)
      | Inr (chat, user) \<Rightarrow>
          (let db = SQLiteStorage_get_db self in
           case state of
             Some s \<Rightarrow>
               (case aiogram_state db of
                  None \<Rightarrow> (Inl (NoSuchTable ''aiogram_state''), db)
                | Some rows \<Rightarrow>
                    (case resolve_state (Some s) of
                       None \<Rightarrow> (Inl IntegrityError, db)
                     | Some v \<Rightarrow>
                         (Inr (), db\<lparr>aiogram_state := Some (insert_on_conflict user chat v rows)\<rparr>)))
           | None \<Rightarrow>
               (case aiogram_state db of
                  None \<Rightarrow> (Inl (NoSuchTable ''aiogram_state''), db)
                | Some rows \<Rightarrow>
                    (Inr (), db\<lparr>aiogram_state := Some (delete_where chat user rows)\<rparr>))))"

definition SQLiteStorage_get_state ::
  "int option \<Rightarrow> int option \<Rightarrow> string option \<Rightarrow> storage \<Rightarrow> (error + string option) \<times> storage" where
  "SQLiteStorage_get_state chat user default' self =
     (case check_address chat user of
        Inl e \<Rightarrow> (Inl e, self)
      | Inr (chat, user) \<Rightarrow>
          (let db = SQLiteStorage_get_db self in
           case aiogram_state db of
             None \<Rightarrow> (Inl (NoSuchTable ''aiogram_state''), db)
           | Some rows \<Rightarrow>
               (case select_where chat user rows of
                  Some result \<Rightarrow> (Inr (Some result), db)
                | None \<Rightarrow> (Inr (resolve_state default'), db))))"

text \<open>
  Python's truth value of an optional dictionary (\<^verbatim>\<open>if data:\<close>, \<^verbatim>\<open>default or {}\<close>): \<^verbatim>\<open>None\<close> and
  the empty dictionary are false. \<open>pyval_of\<close> is the Python value of such an argument.
\<close>

definition truthy :: "dict option \<Rightarrow> bool" where
  "truthy d = (case d of None \<Rightarrow> False | Some kvs \<Rightarrow> kvs \<noteq> [])"

definition pyval_of :: "dict option \<Rightarrow> pyval" where
  "pyval_of d = (case d of None \<Rightarrow> PNone | Some kvs \<Rightarrow> PDict kvs)"

definition default_or_empty :: "dict option \<Rightarrow> pyval" where
  "default_or_empty default' = (if truthy default' then pyval_of default' else PDict [])"

text \<open>
  \<^verbatim>\<open>d[k] = v\<close> and \<^verbatim>\<open>d.update(other)\<close> on insertion-ordered dictionaries: a key that is
  present keeps its place, a new key goes to the end.
\<close>

fun dict_setitem :: "string \<Rightarrow> pyval \<Rightarrow> dict \<Rightarrow> dict" where
  "dict_setitem k v [] = [(k, v)]"
| "dict_setitem k v ((k', v') # d) =
     (if k' = k then (k', v) # d else (k', v') # dict_setitem k v d)"

definition dict_update :: "dict \<Rightarrow> dict \<Rightarrow> dict" where
  "dict_update d other = foldl (\<lambda>acc (k, v). dict_setitem k v acc) d other"

definition SQLiteStorage_set_data ::
  "codec \<Rightarrow> int option \<Rightarrow> int option \<Rightarrow> dict option \<Rightarrow> storage \<Rightarrow> (error + unit) \<times> storage" where
  "SQLiteStorage_set_data jsonpickle chat user data self =
     (case check_address chat user of
        Inl e \<Rightarrow> (Inl e, self)
      | Inr (chat, user) \<Rightarrow>
          (let db = SQLiteStorage_get_db self in
           if truthy data then
             (case aiogram_data db of
                None \<Rightarrow> (Inl (NoSuchTable ''aiogram_data''), db)
              | Some rows \<Rightarrow>
                  (Inr (), db\<lparr>aiogram_data :=
                     Some (insert_on_conflict user chat (encode jsonpickle (pyval_of data)) rows)\<rparr>))
           else
             (case aiogram_data db of
                None \<Rightarrow> (Inl (NoSuchTable ''aiogram_data''), db)
              | Some rows \<Rightarrow>
                  (Inr (), db\<lparr>aiogram_data := Some (delete_where chat user rows)\<rparr>))))"

definition SQLiteStorage_get_data ::
  "codec \<Rightarrow> int option \<Rightarrow> int option \<Rightarrow> dict option \<Rightarrow> storage \<Rightarrow> (error + pyval) \<times> storage" where
  "SQLiteStorage_get_data jsonpickle chat user default' self =
     (case check_address chat user of
        Inl e \<Rightarrow> (Inl e, self)
      | Inr (chat, user) \<Rightarrow>
          (let db = SQLiteStorage_get_db self in
           case aiogram_data db of
             None \<Rightarrow> (Inl (NoSuchTable ''aiogram_data''), db)
           | Some rows \<Rightarrow>
               (case select_where chat user rows of
                  Some result \<Rightarrow> (decode jsonpickle result, db)
                | None \<Rightarrow> (Inr (default_or_empty default'), db))))"

definition SQLiteStorage_update_data ::
  "codec \<Rightarrow> int option \<Rightarrow> int option \<Rightarrow> dict option \<Rightarrow> dict \<Rightarrow> storage \<Rightarrow> (error + unit) \<times> storage" where
  "SQLiteStorage_update_data jsonpickle chat user data kwargs self =
     (let data = (case data of None \<Rightarrow> [] | Some d \<Rightarrow> d) in
      case SQLiteStorage_get_data jsonpickle chat user (Some []) self of
        (Inl e, db) \<Rightarrow> (Inl e, db)
      | (Inr temp_data, db) \<Rightarrow>
          (case temp_data of
             PDict d \<Rightarrow>
               SQLiteStorage_set_data jsonpickle chat user
                 (Some (dict_update (dict_update d data) kwargs)) db
           | _ \<Rightarrow> (Inl AttributeError, db)))"

definition SQLiteStorage_has_bucket :: bool where
  "SQLiteStorage_has_bucket = True"

definition SQLiteStorage_get_bucket ::
  "codec \<Rightarrow> int option \<Rightarrow> int option \<Rightarrow> dict option \<Rightarrow> storage \<Rightarrow> (error + pyval) \<times> storage" where
  "SQLiteStorage_get_bucket jsonpickle chat user default' self =
     (case check_address chat user of
        Inl e \<Rightarrow> (Inl e, self)
      | Inr (chat, user) \<Rightarrow>
          (let db = SQLiteStorage_get_db self in
           case aiogram_bucket db of
             None \<Rightarrow> (Inl (NoSuchTable ''aiogram_bucket''), db)
           | Some rows \<Rightarrow>
               (case select_where chat user rows of
                  Some result \<Rightarrow> (decode jsonpickle result, db)
                | None \<Rightarrow> (Inr (default_or_empty default'), db))))"

definition SQLiteStorage_set_bucket ::
  "codec \<Rightarrow> int option \<Rightarrow> int option \<Rightarrow> dict option \<Rightarrow> storage \<Rightarrow> (error + unit) \<times> storage" where
  "SQLiteStorage_set_bucket jsonpickle chat user bucket self =
     (case check_address chat user of
        Inl e \<Rightarrow> (Inl e, self)
      | Inr (chat, user) \<Rightarrow>
          (let db = SQLiteStorage_get_db self in
           case aiogram_bucket db of
             None \<Rightarrow> (Inl (NoSuchTable ''aiogram_bucket''), db)
           | Some rows \<Rightarrow>
               (Inr (), db\<lparr>aiogram_bucket :=
                  Some (insert_on_conflict user chat (encode jsonpickle (pyval_of bucket)) rows)\<rparr>)))"

definition SQLiteStorage_update_bucket ::
  "codec \<Rightarrow> int option \<Rightarrow> int option \<Rightarrow> dict option \<Rightarrow> dict \<Rightarrow> storage \<Rightarrow> (error + unit) \<times> storage" where
  "SQLiteStorage_update_bucket jsonpickle chat user bucket kwargs self =
     (let bucket = (case bucket of None \<Rightarrow> [] | Some d \<Rightarrow> d) in
      case SQLiteStorage_get_bucket jsonpickle chat user None self of
        (Inl e, db) \<Rightarrow> (Inl e, db)
      | (Inr temp_bucket, db) \<Rightarrow>
          (case temp_bucket of
             PDict d \<Rightarrow>
               SQLiteStorage_set_bucket jsonpickle chat user
                 (Some (dict_update (dict_update d bucket) kwargs)) db
           | _ \<Rightarrow> (Inl AttributeError, db)))"

text \<open>
  \<^verbatim>\<open>DROP TABLE\<close> has no \<^verbatim>\<open>IF EXISTS\<close>: on a table that is not there the driver raises, and
  the method has no handler. Neither driver runs \<^verbatim>\<open>DROP TABLE\<close> inside a transaction, so
  a table dropped before a failing statement stays dropped.
\<close>

definition SQLiteStorage_reset_all :: "bool \<Rightarrow> storage \<Rightarrow> (error + unit) \<times> storage" where
  "SQLiteStorage_reset_all full self =
     (let db = SQLiteStorage_get_db self in
      case aiogram_state db of
        None \<Rightarrow> (Inl (NoSuchTable ''aiogram_state''), db)
      | Some _ \<Rightarrow>
          (let db = db\<lparr>aiogram_state := None\<rparr> in
           if full then
             (case aiogram_data db of
                None \<Rightarrow> (Inl (NoSuchTable ''aiogram_data''), db)
              | Some _ \<Rightarrow>
                  (let db = db\<lparr>aiogram_data := None\<rparr> in
                   case aiogram_bucket db of
                     None \<Rightarrow> (Inl (NoSuchTable ''aiogram_bucket''), db)
                   | Some _ \<Rightarrow> (Inr (), db\<lparr>aiogram_bucket := None\<rparr>)))
           else (Inr (), db)))"

definition SQLiteStorage_get_states_list ::
  "storage \<Rightarrow> (error + (int \<times> int) list) \<times> storage" where
  "SQLiteStorage_get_states_list self =
     (let db = SQLiteStorage_get_db self in
      case aiogram_state db of
        None \<Rightarrow> (Inl (NoSuchTable ''aiogram_state''), db)
      | Some items \<Rightarrow> (Inr (map (\<lambda>(item0, item1, item2). (item1, item0)) items), db))"

section \<open>\<^verbatim>\<open>PGStorage\<close>\<close>

text \<open>
  The asyncpg class runs the same statements. It reads a single value with \<^verbatim>\<open>fetchval\<close>,
  which gives the column's value itself (or \<^verbatim>\<open>None\<close> when no row matches), and then
  tests that value's truth: an empty text counts as no result.
\<close>

definition PGStorage_get_db :: "storage \<Rightarrow> storage" where
  "PGStorage_get_db self =
     (if db_connected self then self
      else self\<lparr>db_connected := True,
                aiogram_state := create_table_if_not_exists (aiogram_state self),
                aiogram_data := create_table_if_not_exists (aiogram_data self),
                aiogram_bucket := create_table_if_not_exists (aiogram_bucket self)\<rparr>)"

definition PGStorage_set_state ::
  "int option \<Rightarrow> int option \<Rightarrow> string option \<Rightarrow> storage \<Rightarrow> (error + unit) \<times> storage" where
  "PGStorage_set_state chat user state self =
     (case check_address chat user of
        Inl e \<Rightarrow> (Inl e, self)
      | Inr (chat, user) \<Rightarrow>
          (let db = PGStorage_get_db self in
           case state of
             Some s \<Rightarrow>
               (case aiogram_state db of
                  None \<Rightarrow> (Inl (NoSuchTable ''aiogram_state''), db)
                | Some rows \<Rightarrow>
                    (case resolve_state (Some s) of
                       None \<Rightarrow> (Inl IntegrityError, db)
                     | Some v \<Rightarrow>
                         (Inr (), db\<lparr>aiogram_state := Some (insert_on_conflict user chat v rows)\<rparr>)))
           | None \<Rightarrow>
               (case aiogram_state db of
                  None \<Rightarrow> (Inl (NoSuchTable ''aiogram_state''), db)
                | Some rows \<Rightarrow>
                    (Inr (), db\<lparr>aiogram_state := Some (delete_where chat user rows)\<rparr>))))"

definition PGStorage_get_state ::
  "int option \<Rightarrow> int option \<Rightarrow> string option \<Rightarrow> storage \<Rightarrow> (error + string option) \<times> storage" where
  "PGStorage_get_state chat user default' self =
     (case check_address chat user of
        Inl e \<Rightarrow> (Inl e, self)
      | Inr (chat, user) \<Rightarrow>
          (let db = PGStorage_get_db self in
           case aiogram_state db of
             None \<Rightarrow> (Inl (NoSuchTable ''aiogram_state''), db)
           | Some rows \<Rightarrow>
               (let result = select_where chat user rows in
                if result \<noteq> None \<and> result \<noteq> Some [] then (Inr result, db)
                else (Inr (resolve_state default'), db))))"

definition PGStorage_set_data ::
  "codec \<Rightarrow> int option \<Rightarrow> int option \<Rightarrow> dict option \<Rightarrow> storage \<Rightarrow> (error + unit) \<times> storage" where
  "PGStorage_set_data jsonpickle chat user data self =
     (case check_address chat user of
        Inl e \<Rightarrow> (Inl e, self)
      | Inr (chat, user) \<Rightarrow>
          (let db = PGStorage_get_db self in
           if truthy data then
             (case aiogram_data db of
                None \<Rightarrow> (Inl (NoSuchTable ''aiogram_data''), db)
              | Some rows \<Rightarrow>
                  (Inr (), db\<lparr>aiogram_data :=
                     Some (insert_on_conflict user chat (encode jsonpickle (pyval_of data)) rows)\<rparr>))
           else
             (case aiogram_data db of
                None \<Rightarrow> (Inl (NoSuchTable ''aiogram_data''), db)
              | Some rows \<Rightarrow>
                  (Inr (), db\<lparr>aiogram_data := Some (delete_where chat user rows)\<rparr>))))"

definition PGStorage_get_data ::
  "codec \<Rightarrow> int option \<Rightarrow> int option \<Rightarrow> dict option \<Rightarrow> storage \<Rightarrow> (error + pyval) \<times> storage" where
  "PGStorage_get_data jsonpickle chat user default' self =
     (case check_address chat user of
        Inl e \<Rightarrow> (Inl e, self)
      | Inr (chat, user) \<Rightarrow>
          (let db = PGStorage_get_db self in
           case aiogram_data db of
             None \<Rightarrow> (Inl (NoSuchTable ''aiogram_data''), db)
           | Some rows \<Rightarrow>
               (case select_where chat user rows of
                  Some result \<Rightarrow>
                    (if result \<noteq> [] then (decode jsonpickle result, db)
                     else (Inr (default_or_empty default'), db))
                | None \<Rightarrow> (Inr (default_or_empty default'), db))))"

definition PGStorage_update_data ::
  "codec \<Rightarrow> int option \<Rightarrow> int option \<Rightarrow> dict option \<Rightarrow> dict \<Rightarrow> storage \<Rightarrow> (error + unit) \<times> storage" where
  "PGStorage_update_data jsonpickle chat user data kwargs self =
     (let data = (case data of None \<Rightarrow> [] | Some d \<Rightarrow> d) in
      case PGStorage_get_data jsonpickle chat user (Some []) self of
        (Inl e, db) \<Rightarrow> (Inl e, db)
      | (Inr temp_data, db) \<Rightarrow>
          (case temp_data of
             PDict d \<Rightarrow>
               PGStorage_set_data jsonpickle chat user
                 (Some (dict_update (dict_update d data) kwargs)) db
           | _ \<Rightarrow> (Inl AttributeError, db)))"

definition PGStorage_has_bucket :: bool where
  "PGStorage_has_bucket = True"

definition PGStorage_get_bucket ::
  "codec \<Rightarrow> int option \<Rightarrow> int option \<Rightarrow> dict option \<Rightarrow> storage \<Rightarrow> (error + pyval) \<times> storage" where
  "PGStorage_get_bucket jsonpickle chat user default' self =
     (case check_address chat user of
        Inl e \<Rightarrow> (Inl e, self)
      | Inr (chat, user) \<Rightarrow>
          (let db = PGStorage_get_db self in
           case aiogram_bucket db of
             None \<Rightarrow> (Inl (NoSuchTable ''aiogram_bucket''), db)
           | Some rows \<Rightarrow>
               (case select_where chat user rows of
                  Some result \<Rightarrow>
                    (if result \<noteq> [] then (decode jsonpickle result, db)
                     else (Inr (default_or_empty default'), db))
                | None \<Rightarrow> (Inr (default_or_empty default'), db))))"

definition PGStorage_set_bucket ::
  "codec \<Rightarrow> int option \<Rightarrow> int option \<Rightarrow> dict option \<Rightarrow> storage \<Rightarrow> (error + unit) \<times> storage" where
  "PGStorage_set_bucket jsonpickle chat user bucket self =
     (case check_address chat user of
        Inl e \<Rightarrow> (Inl e, self)
      | Inr (chat, user) \<Rightarrow>
          (let db = PGStorage_get_db self in
           case aiogram_bucket db of
             None \<Rightarrow> (Inl (NoSuchTable ''aiogram_bucket''), db)
           | Some rows \<Rightarrow>
               (Inr (), db\<lparr>aiogram_bucket :=
                  Some (insert_on_conflict user chat (encode jsonpickle (pyval_of bucket)) rows)\<rparr>)))"

definition PGStorage_update_bucket ::
  "codec \<Rightarrow> int option \<Rightarrow> int option \<Rightarrow> dict option \<Rightarrow> dict \<Rightarrow> storage \<Rightarrow> (error + unit) \<times> storage" where
  "PGStorage_update_bucket jsonpickle chat user bucket kwargs self =
     (let bucket = (case bucket of None \<Rightarrow> [] | Some d \<Rightarrow> d) in
      case PGStorage_get_bucket jsonpickle chat user None self of
        (Inl e, db) \<Rightarrow> (Inl e, db)
      | (Inr temp_bucket, db) \<Rightarrow>
          (case temp_bucket of
             PDict d \<Rightarrow>
               PGStorage_set_bucket jsonpickle chat user
                 (Some (dict_update (dict_update d bucket) kwargs)) db
           | _ \<Rightarrow> (Inl AttributeError, db)))"

definition PGStorage_reset_all :: "bool \<Rightarrow> storage \<Rightarrow> (error + unit) \<times> storage" where
  "PGStorage_reset_all full self =
     (let db = PGStorage_get_db self in
      case aiogram_state db of
        None \<Rightarrow> (Inl (NoSuchTable ''aiogram_state''), db)
      | Some _ \<Rightarrow>
          (let db = db\<lparr>aiogram_state := None\<rparr> in
           if full then
             (case aiogram_data db of
                None \<Rightarrow> (Inl (NoSuchTable ''aiogram_data''), db)
              | Some _ \<Rightarrow>
                  (let db = db\<lparr>aiogram_data := None\<rparr> in
                   case aiogram_bucket db of
                     None \<Rightarrow> (Inl (NoSuchTable ''aiogram_bucket''), db)
                   | Some _ \<Rightarrow> (Inr (), db\<lparr>aiogram_bucket := None\<rparr>)))
           else (Inr (), db)))"

definition PGStorage_get_states_list ::
  "storage \<Rightarrow> (error + (int \<times> int) list) \<times> storage" where
  "PGStorage_get_states_list self =
     (let db = PGStorage_get_db self in
      case aiogram_state db of
        None \<Rightarrow> (Inl (NoSuchTable ''aiogram_state''), db)
      | Some items \<Rightarrow> (Inr (map (\<lambda>(user, chat, state). (chat, user)) items), db))"

section \<open>A reference serialiser\<close>

text \<open>
  Modelled from the spec: the serialisation interface of the spec (\<open>encode\<close> gives a
  text, \<open>decode\<close> reads it back) is implemented by the library \<^verbatim>\<open>jsonpickle\<close>, which is
  not part of the repository. The operations above take the pair as a parameter. For
  concrete runs the parameter is instantiated with \<open>json_codec\<close>: the JSON text that
  Python's \<^verbatim>\<open>json\<close> module writes and reads with its default settings, which is the text
  \<^verbatim>\<open>jsonpickle\<close> gives for dictionaries with string keys, lists, strings, integers,
  finite floats, booleans and \<^verbatim>\<open>None\<close>: items separated by a comma and a space, a colon
  and a space after a key, every character outside the printable ASCII range escaped.
  A float is written as \<^verbatim>\<open>float.__repr__\<close> writes it: with an exponent when the position
  of the decimal point is below -3 or above 16, as a plain decimal otherwise, with
  \<^verbatim>\<open>.0\<close> after an integral value. A number with a fraction or an exponent is read as a
  float and brought to the shortest form (no leading and no trailing zero digit); the
  rounding of a longer decimal to the nearest float is not modelled. JSON has no
  infinity and no not-a-number. The reader takes a fuel argument for the nesting;
  \<open>json_loads\<close> gives it more than the text can use.
\<close>

definition quote :: char where "quote = CHR 0x22"
definition backslash :: char where "backslash = CHR 0x5C"

definition hex_digit :: "nat \<Rightarrow> char" where
  "hex_digit n = ''0123456789abcdef'' ! (n mod 16)"

definition escape_char :: "char \<Rightarrow> string" where
  "escape_char c =
     (if c = quote then [backslash, quote]
      else if c = backslash then [backslash, backslash]
      else if c = CHR 0x0A then [backslash, CHR ''n'']
      else if c = CHR 0x0D then [backslash, CHR ''r'']
      else if c = CHR 0x09 then [backslash, CHR ''t'']
      else if c = CHR 0x08 then [backslash, CHR ''b'']
      else if c = CHR 0x0C then [backslash, CHR ''f'']
      else if (of_char c :: nat) < 32 \<or> 126 < (of_char c :: nat) then
        [backslash, CHR ''u'', CHR ''0'', CHR ''0'',
         hex_digit (of_char c div 16), hex_digit (of_char c)]
      else [c])"

definition dumps_str :: "string \<Rightarrow> string" where
  "dumps_str s = quote # concat (map escape_char s) @ [quote]"

fun dumps_nat :: "nat \<Rightarrow> string" where
  "dumps_nat n =
     (if n < 10 then [char_of (48 + n)] else dumps_nat (n div 10) @ [char_of (48 + n mod 10)])"

definition dumps_int :: "int \<Rightarrow> string" where
  "dumps_int i = (if i < 0 then CHR ''-'' # dumps_nat (nat (- i)) else dumps_nat (nat i))"

text \<open>
  Modelled from the spec: the exponent of a float as \<^verbatim>\<open>float.__repr__\<close> prints it, a
  sign and at least two digits, and the float itself.
\<close>

definition dumps_exponent :: "int \<Rightarrow> string" where
  "dumps_exponent e =
     (if e < 0 then CHR ''-'' else CHR ''+'') #
     (if length (dumps_nat (nat \<bar>e\<bar>)) < 2 then CHR ''0'' # dumps_nat (nat \<bar>e\<bar>)
      else dumps_nat (nat \<bar>e\<bar>))"

definition dumps_float :: "bool \<Rightarrow> string \<Rightarrow> int \<Rightarrow> string" where
  "dumps_float neg ds decpt =
     (if neg then ''-'' else []) @
     (if decpt \<le> - 4 \<or> 16 < decpt then
        (case ds of
           [] \<Rightarrow> []
         | d # tail \<Rightarrow> d # (if tail = [] then [] else CHR ''.'' # tail)) @
        CHR ''e'' # dumps_exponent (decpt - 1)
      else if decpt \<le> 0 then ''0.'' @ replicate (nat (- decpt)) CHR ''0'' @ ds
      else if int (length ds) \<le> decpt then
        ds @ replicate (nat decpt - length ds) CHR ''0'' @ ''.0''
      else take (nat decpt) ds @ CHR ''.'' # drop (nat decpt) ds)"

fun json_dumps :: "pyval \<Rightarrow> string"
  and dumps_elements :: "pyval list \<Rightarrow> string"
  and dumps_items :: "(string \<times> pyval) list \<Rightarrow> string" where
  "json_dumps PNone = ''null''"
| "json_dumps (PBool b) = (if b then ''true'' else ''false'')"
| "json_dumps (PInt i) = dumps_int i"
| "json_dumps (PFloat neg ds decpt) = dumps_float neg ds decpt"
| "json_dumps (PStr s) = dumps_str s"
| "json_dumps (PList xs) = ''['' @ dumps_elements xs @ '']''"
| "json_dumps (PDict kvs) = ''{'' @ dumps_items kvs @ ''}''"
| "dumps_elements [] = []"
| "dumps_elements [x] = json_dumps x"
| "dumps_elements (x # y # ys) = json_dumps x @ '', '' @ dumps_elements (y # ys)"
| "dumps_items [] = []"
| "dumps_items [(k, v)] = dumps_str k @ '': '' @ json_dumps v"
| "dumps_items ((k, v) # kv # kvs) =
     dumps_str k @ '': '' @ json_dumps v @ '', '' @ dumps_items (kv # kvs)"


definition is_ws :: "char \<Rightarrow> bool" where
  "is_ws c \<longleftrightarrow> c = CHR '' '' \<or> c = CHR 0x09 \<or> c = CHR 0x0A \<or> c = CHR 0x0D"

definition skip_ws :: "string \<Rightarrow> string" where
  "skip_ws s = dropWhile is_ws s"

definition is_digit :: "char \<Rightarrow> bool" where
  "is_digit c \<longleftrightarrow> 48 \<le> (of_char c :: nat) \<and> (of_char c :: nat) \<le> 57"

definition hex_val :: "char \<Rightarrow> nat option" where
  "hex_val c =
     (let n = (of_char c :: nat) in
      if 48 \<le> n \<and> n \<le> 57 then Some (n - 48)
      else if 97 \<le> n \<and> n \<le> 102 then Some (n - 87)
      else if 65 \<le> n \<and> n \<le> 70 then Some (n - 55)
      else None)"

definition unescape :: "char \<Rightarrow> char option" where
  "unescape e =
     (if e = quote then Some quote
      else if e = backslash then Some backslash
      else if e = CHR ''/'' then Some CHR ''/''
      else if e = CHR ''n'' then Some (CHR 0x0A)
      else if e = CHR ''r'' then Some (CHR 0x0D)
      else if e = CHR ''t'' then Some (CHR 0x09)
      else if e = CHR ''b'' then Some (CHR 0x08)
      else if e = CHR ''f'' then Some (CHR 0x0C)
      else None)"

definition push_char :: "char \<Rightarrow> (string \<times> string) option \<Rightarrow> (string \<times> string) option" where
  "push_char c r = (case r of None \<Rightarrow> None | Some (s, rest) \<Rightarrow> Some (c # s, rest))"

fun loads_str :: "string \<Rightarrow> (string \<times> string) option" where
  "loads_str [] = None"
| "loads_str (c # cs) =
     (if c = quote then Some ([], cs)
      else if c = backslash then
        (case cs of
           [] \<Rightarrow> None
         | e # cs' \<Rightarrow>
             if e = CHR ''u'' then
               (case cs' of
                  h1 # h2 # h3 # h4 # rest \<Rightarrow>
                    (case (hex_val h1, hex_val h2, hex_val h3, hex_val h4) of
                       (Some a, Some b, Some c, Some d) \<Rightarrow>
                         if a = 0 \<and> b = 0 then push_char (char_of (16 * c + d)) (loads_str rest)
                         else None
                     | _ \<Rightarrow> None)
                | _ \<Rightarrow> None)
             else
               (case unescape e of
                  None \<Rightarrow> None
                | Some ch \<Rightarrow> push_char ch (loads_str cs')))
      else if (of_char c :: nat) < 32 then None
      else push_char c (loads_str cs))"

definition loads_nat :: "string \<Rightarrow> nat" where
  "loads_nat ds = foldl (\<lambda>n d. 10 * n + (of_char d - 48)) 0 ds"

definition loads_fraction :: "string \<Rightarrow> (string option \<times> string) option" where
  "loads_fraction r =
     (case r of
        [] \<Rightarrow> Some (None, r)
      | c # cs \<Rightarrow>
          if c = CHR ''.'' then
            (if takeWhile is_digit cs = [] then None
             else Some (Some (takeWhile is_digit cs), dropWhile is_digit cs))
          else Some (None, r))"

definition loads_exponent :: "string \<Rightarrow> (int option \<times> string) option" where
  "loads_exponent r =
     (case r of
        [] \<Rightarrow> Some (None, r)
      | c # cs \<Rightarrow>
          if c = CHR ''e'' \<or> c = CHR ''E'' then
            (let (eneg, cs') =
                   (case cs of
                      [] \<Rightarrow> (False, cs)
                    | d # ds \<Rightarrow>
                        if d = CHR ''-'' then (True, ds)
                        else if d = CHR ''+'' then (False, ds)
                        else (False, cs));
                 es = takeWhile is_digit cs'
             in if es = [] then None
                else Some (Some (if eneg then - int (loads_nat es) else int (loads_nat es)),
                           dropWhile is_digit cs'))
          else Some (None, r))"

text \<open>
  Modelled from the spec: the float of a significand text and the position of its
  decimal point, in the shortest form: leading zero digits move the point, trailing
  ones are dropped, and a significand of zeros is the float zero.
\<close>

definition make_float :: "bool \<Rightarrow> string \<Rightarrow> int \<Rightarrow> pyval" where
  "make_float neg digits point =
     (let stripped = dropWhile (\<lambda>c. c = CHR ''0'') digits
      in if stripped = [] then PFloat neg ''0'' 1
         else PFloat neg (rev (dropWhile (\<lambda>c. c = CHR ''0'') (rev stripped)))
                (point - int (length digits - length stripped)))"

definition loads_number :: "string \<Rightarrow> (pyval \<times> string) option" where
  "loads_number s =
     (let (neg, s') = (case s of c # cs \<Rightarrow> if c = CHR ''-'' then (True, cs) else (False, s) | [] \<Rightarrow> (False, s));
          ds = takeWhile is_digit s';
          rest = dropWhile is_digit s'
      in if ds = [] \<or> (hd ds = CHR ''0'' \<and> length ds > 1) then None
         else
           (case loads_fraction rest of
              None \<Rightarrow> None
            | Some (frac, rest1) \<Rightarrow>
                (case loads_exponent rest1 of
                   None \<Rightarrow> None
                 | Some (ex, rest2) \<Rightarrow>
                     if frac = None \<and> ex = None then
                       Some (PInt (if neg then - int (loads_nat ds) else int (loads_nat ds)), rest2)
                     else
                       Some (make_float neg
                               (ds @ (case frac of None \<Rightarrow> [] | Some fs \<Rightarrow> fs))
                               (int (length ds) + (case ex of None \<Rightarrow> 0 | Some e \<Rightarrow> e)),
                             rest2))))"

fun loads_value :: "nat \<Rightarrow> string \<Rightarrow> (pyval \<times> string) option"
  and loads_elements :: "nat \<Rightarrow> string \<Rightarrow> (pyval list \<times> string) option"
  and loads_items :: "nat \<Rightarrow> string \<Rightarrow> ((string \<times> pyval) list \<times> string) option" where
  "loads_value 0 s = None"
| "loads_value (Suc n) s =
     (case skip_ws s of
        [] \<Rightarrow> None
      | c # cs \<Rightarrow>
          if c = CHR ''n'' then
            (if take 3 cs = ''ull'' then Some (PNone, drop 3 cs) else None)
          else if c = CHR ''t'' then
            (if take 3 cs = ''rue'' then Some (PBool True, drop 3 cs) else None)
          else if c = CHR ''f'' then
            (if take 4 cs = ''alse'' then Some (PBool False, drop 4 cs) else None)
          else if c = quote then
            (case loads_str cs of None \<Rightarrow> None | Some (str, rest) \<Rightarrow> Some (PStr str, rest))
          else if c = CHR ''['' then
            (case skip_ws cs of
               [] \<Rightarrow> None
             | d # ds \<Rightarrow>
                 if d = CHR '']'' then Some (PList [], ds)
                 else (case loads_elements n cs of
                         None \<Rightarrow> None
                       | Some (xs, rest) \<Rightarrow> Some (PList xs, rest)))
          else if c = CHR ''{'' then
            (case skip_ws cs of
               [] \<Rightarrow> None
             | d # ds \<Rightarrow>
                 if d = CHR ''}'' then Some (PDict [], ds)
                 else (case loads_items n cs of
                         None \<Rightarrow> None
                       | Some (kvs, rest) \<Rightarrow> Some (PDict (dict_update [] kvs), rest)))
          else loads_number (c # cs))"
| "loads_elements 0 s = None"
| "loads_elements (Suc n) s =
     (case loads_value n s of
        None \<Rightarrow> None
      | Some (x, rest) \<Rightarrow>
          (case skip_ws rest of
             [] \<Rightarrow> None
           | d # ds \<Rightarrow>
               if d = CHR '']'' then Some ([x], ds)
               else if d = CHR '','' then
                 (case loads_elements n ds of
                    None \<Rightarrow> None
                  | Some (xs, rest') \<Rightarrow> Some (x # xs, rest'))
               else None))"
| "loads_items 0 s = None"
| "loads_items (Suc n) s =
     (case skip_ws s of
        [] \<Rightarrow> None
      | q # cs \<Rightarrow>
          if q \<noteq> quote then None
          else
            (case loads_str cs of
               None \<Rightarrow> None
             | Some (k, rest) \<Rightarrow>
                 (case skip_ws rest of
                    [] \<Rightarrow> None
                  | colon # rest1 \<Rightarrow>
                      if colon \<noteq> CHR '':'' then None
                      else
                        (case loads_value n rest1 of
                           None \<Rightarrow> None
                         | Some (v, rest2) \<Rightarrow>
                             (case skip_ws rest2 of
                                [] \<Rightarrow> None
                              | d # ds \<Rightarrow>
                                  if d = CHR ''}'' then Some ([(k, v)], ds)
                                  else if d = CHR '','' then
                                    (case loads_items n ds of
                                       None \<Rightarrow> None
                                     | Some (kvs, rest') \<Rightarrow> Some ((k, v) # kvs, rest'))
                                  else None)))))"

definition json_loads :: "string \<Rightarrow> error + pyval" where
  "json_loads s =
     (case loads_value (Suc (length s)) s of
        None \<Rightarrow> Inl DecodeError
      | Some (v, rest) \<Rightarrow> if skip_ws rest = [] then Inr v else Inl DecodeError)"

definition json_codec :: codec where
  "json_codec = \<lparr>encode = json_dumps, decode = json_loads\<rparr>"

section \<open>Vocabulary of the statements and concrete stores\<close>

text \<open>The rows a table holds; a table that does not exist holds none.\<close>

definition rows_of :: "table option \<Rightarrow> row list" where
  "rows_of t = (case t of None \<Rightarrow> [] | Some rows \<Rightarrow> rows)"

text \<open>
  \<open>fresh_storage\<close> is a storage object that has not connected yet, on a database without
  tables. \<open>example_storage\<close> is a connected one in which user 100 has a state, a data and
  a bucket row, all stored under chat 7, and user 200 has a state under chat 5.
\<close>

definition fresh_storage :: storage where
  "fresh_storage =
     \<lparr>db_connected = False, aiogram_state = None, aiogram_data = None, aiogram_bucket = None\<rparr>"

definition example_storage :: storage where
  "example_storage =
     \<lparr>db_connected = True,
      aiogram_state = Some [(100, 7, ''menu''), (200, 5, ''form'')],
      aiogram_data = Some [(100, 7, json_dumps (PDict [(''a'', PInt 1), (''b'', PInt 2)]))],
      aiogram_bucket = Some [(100, 7, json_dumps (PDict [(''k'', PInt 1)]))]\<rparr>"

text \<open>
  Vocabulary for the round trip of the reference serialiser. A value is well formed
  when the keys of each of its dictionaries are distinct, as in a Python dictionary,
  and each of its floats is in the shortest form: digits only, at least one, and
  either the single digit 0 with the point after it or no zero digit at either end.
  \<open>number_ends\<close> says that a text can follow a number: it does not go on with a digit, a
  fraction or an exponent. \<open>number_start\<close> is the first character of a number.
\<close>

definition wf_float :: "string \<Rightarrow> int \<Rightarrow> bool" where
  "wf_float ds decpt \<longleftrightarrow>
     ds \<noteq> [] \<and> list_all is_digit ds \<and>
     (if ds = ''0'' then decpt = 1 else hd ds \<noteq> CHR ''0'' \<and> last ds \<noteq> CHR ''0'')"


definition number_ends :: "string \<Rightarrow> bool" where
  "number_ends rest \<longleftrightarrow>
     (case rest of [] \<Rightarrow> True
      | c # _ \<Rightarrow> \<not> is_digit c \<and> c \<noteq> CHR ''.'' \<and> c \<noteq> CHR ''e'' \<and> c \<noteq> CHR ''E'')"


section \<open>Lemmas about the connection and the SQL statements\<close>

lemma PGStorage_get_db_eq: "PGStorage_get_db = SQLiteStorage_get_db"
  by (rule ext) (simp add: PGStorage_get_db_def SQLiteStorage_get_db_def)

lemma PGStorage_set_state_eq: "PGStorage_set_state = SQLiteStorage_set_state"
  unfolding PGStorage_set_state_def SQLiteStorage_set_state_def PGStorage_get_db_eq
  by (rule refl)

lemma PGStorage_set_data_eq: "PGStorage_set_data = SQLiteStorage_set_data"
  unfolding PGStorage_set_data_def SQLiteStorage_set_data_def PGStorage_get_db_eq
  by (rule refl)

lemma PGStorage_set_bucket_eq: "PGStorage_set_bucket = SQLiteStorage_set_bucket"
  unfolding PGStorage_set_bucket_def SQLiteStorage_set_bucket_def PGStorage_get_db_eq
  by (rule refl)

lemma PGStorage_reset_all_eq: "PGStorage_reset_all = SQLiteStorage_reset_all"
  unfolding PGStorage_reset_all_def SQLiteStorage_reset_all_def PGStorage_get_db_eq
  by (rule refl)

lemma PGStorage_get_states_list_eq: "PGStorage_get_states_list = SQLiteStorage_get_states_list"
  unfolding PGStorage_get_states_list_def SQLiteStorage_get_states_list_def PGStorage_get_db_eq
  by (rule refl)

lemma get_db_connected [simp]: "db_connected (SQLiteStorage_get_db self)"
  by (simp add: SQLiteStorage_get_db_def)

lemma get_db_idem [simp]: "SQLiteStorage_get_db (SQLiteStorage_get_db self) = SQLiteStorage_get_db self"
  by (simp add: SQLiteStorage_get_db_def)

lemma get_db_of_connected: "db_connected self \<Longrightarrow> SQLiteStorage_get_db self = self"
  by (simp add: SQLiteStorage_get_db_def)

lemma get_db_update_state [simp]:
  "SQLiteStorage_get_db ((SQLiteStorage_get_db self)\<lparr>aiogram_state := t\<rparr>) =
     (SQLiteStorage_get_db self)\<lparr>aiogram_state := t\<rparr>"
  by (simp add: SQLiteStorage_get_db_def)

lemma get_db_update_data [simp]:
  "SQLiteStorage_get_db ((SQLiteStorage_get_db self)\<lparr>aiogram_data := t\<rparr>) =
     (SQLiteStorage_get_db self)\<lparr>aiogram_data := t\<rparr>"
  by (simp add: SQLiteStorage_get_db_def)

lemma get_db_update_bucket [simp]:
  "SQLiteStorage_get_db ((SQLiteStorage_get_db self)\<lparr>aiogram_bucket := t\<rparr>) =
     (SQLiteStorage_get_db self)\<lparr>aiogram_bucket := t\<rparr>"
  by (simp add: SQLiteStorage_get_db_def)

lemma select_where_None_iff:
  "select_where chat user rows = None \<longleftrightarrow> (\<forall>w. (user, chat, w) \<notin> set rows)"
proof (induction rows)
  case Nil then show ?case by simp
next
  case (Cons r rows)
  obtain u c w where r: "r = (u, c, w)" by (cases r)
  show ?case using Cons unfolding r by auto
qed

lemma select_where_Some_mem:
  "select_where chat user rows = Some w \<Longrightarrow> (user, chat, w) \<in> set rows"
  by (induction rows) (auto split: if_splits)

lemma select_where_distinct:
  "distinct (map fst rows) \<Longrightarrow> (user, chat, w) \<in> set rows \<Longrightarrow> select_where chat user rows = Some w"
  by (induction rows) (auto simp: rev_image_eqI)

lemma select_where_other_chat:
  "distinct (map fst rows) \<Longrightarrow> (user, c1, w) \<in> set rows \<Longrightarrow> c1 \<noteq> chat \<Longrightarrow>
     select_where chat user rows = None"
proof -
  assume d: "distinct (map fst rows)" and m: "(user, c1, w) \<in> set rows" and ne: "c1 \<noteq> chat"
  have "(user, chat, w') \<notin> set rows" for w'
  proof
    assume m': "(user, chat, w') \<in> set rows"
    from d m m' have "(c1, w) = (chat, w')"
      by (meson eq_key_imp_eq_value)
    with ne show False by simp
  qed
  then show ?thesis by (simp add: select_where_None_iff)
qed

lemma delete_where_filter:
  "delete_where chat user rows = filter (\<lambda>r. \<not> (fst (snd r) = chat \<and> fst r = user)) rows"
  by (induction rows) auto

lemma delete_where_absent:
  "\<forall>w. (user, chat, w) \<notin> set rows \<Longrightarrow> delete_where chat user rows = rows"
  by (induction rows) auto

lemma select_where_delete_where [simp]:
  "select_where chat user (delete_where chat user rows) = None"
  by (induction rows) auto

lemma insert_on_conflict_new:
  "user \<notin> fst ` set rows \<Longrightarrow> insert_on_conflict user chat v rows = rows @ [(user, chat, v)]"
  by (induction rows) auto

lemma insert_on_conflict_old:
  "distinct (map fst rows) \<Longrightarrow> user \<in> fst ` set rows \<Longrightarrow>
     insert_on_conflict user chat v rows =
       map (\<lambda>r. if fst r = user then (fst r, fst (snd r), v) else r) rows"
proof (induction rows)
  case Nil then show ?case by simp
next
  case (Cons r rows)
  obtain u c w where r: "r = (u, c, w)" by (cases r)
  show ?case
  proof (cases "u = user")
    case True
    with Cons.prems r have "user \<notin> fst ` set rows" by auto
    then have "map (\<lambda>r. if fst r = user then (fst r, fst (snd r), v) else r) rows = rows"
      by (intro map_idI) force
    with True r show ?thesis by simp
  next
    case False
    with Cons r show ?thesis by auto
  qed
qed

lemma map_fst_insert_on_conflict:
  "map fst (insert_on_conflict user chat v rows) =
     (if user \<in> fst ` set rows then map fst rows else map fst rows @ [user])"
  by (induction rows) (auto simp: rev_image_eqI)

lemma distinct_insert_on_conflict:
  "distinct (map fst rows) \<Longrightarrow> distinct (map fst (insert_on_conflict user chat v rows))"
  by (simp add: map_fst_insert_on_conflict)

lemma length_insert_on_conflict:
  "length rows \<le> length (insert_on_conflict user chat v rows)"
  by (induction rows) auto

lemma insert_on_conflict_has_row:
  "\<exists>c. (user, c, v) \<in> set (insert_on_conflict user chat v rows)"
  by (induction rows) auto

lemma insert_on_conflict_keeps_chat:
  "(user, c1, w) \<in> set rows \<Longrightarrow> distinct (map fst rows) \<Longrightarrow>
     (user, c1, v) \<in> set (insert_on_conflict user chat v rows)"
  by (induction rows) (auto simp: rev_image_eqI)

lemma select_where_insert_on_conflict:
  "distinct (map fst rows) \<Longrightarrow> \<forall>c' w. (user, c', w) \<in> set rows \<longrightarrow> c' = chat \<Longrightarrow>
     select_where chat user (insert_on_conflict user chat v rows) = Some v"
  by (induction rows) (auto simp: rev_image_eqI)

lemma storage_state_same:
  "aiogram_state st = Some rows \<Longrightarrow> st\<lparr>aiogram_state := Some rows\<rparr> = st"
  by simp

lemma insert_on_conflict_stored_chat:
  assumes "distinct (map fst rows)" and "(user, c1, w) \<in> set rows"
  shows "insert_on_conflict user chat v rows = map (\<lambda>r. if fst r = user then (user, c1, v) else r) rows"
proof -
  have "user \<in> fst ` set rows" using assms(2) by force
  with assms(1) have "insert_on_conflict user chat v rows =
      map (\<lambda>r. if fst r = user then (fst r, fst (snd r), v) else r) rows"
    by (rule insert_on_conflict_old)
  also have "\<dots> = map (\<lambda>r. if fst r = user then (user, c1, v) else r) rows"
  proof (rule map_cong[OF refl])
    fix r assume r: "r \<in> set rows"
    obtain u c x where [simp]: "r = (u, c, x)" by (cases r)
    show "(if fst r = user then (fst r, fst (snd r), v) else r) = (if fst r = user then (user, c1, v) else r)"
    proof (cases "u = user")
      case True
      with r assms have "(c, x) = (c1, w)" by (auto dest: eq_key_imp_eq_value)
      with True show ?thesis by simp
    next
      case False then show ?thesis by simp
    qed
  qed
  finally show ?thesis .
qed

lemma rows_of_create [simp]: "rows_of (create_table_if_not_exists t) = rows_of t"
  by (cases t) (simp_all add: rows_of_def create_table_if_not_exists_def)

lemma rows_of_get_db [simp]:
  "rows_of (aiogram_state (SQLiteStorage_get_db self)) = rows_of (aiogram_state self)"
  "rows_of (aiogram_data (SQLiteStorage_get_db self)) = rows_of (aiogram_data self)"
  "rows_of (aiogram_bucket (SQLiteStorage_get_db self)) = rows_of (aiogram_bucket self)"
  by (simp_all add: SQLiteStorage_get_db_def)

lemma get_db_fresh_tables:
  "\<not> db_connected self \<Longrightarrow>
     aiogram_state (SQLiteStorage_get_db self) \<noteq> None
   \<and> aiogram_data (SQLiteStorage_get_db self) \<noteq> None
   \<and> aiogram_bucket (SQLiteStorage_get_db self) \<noteq> None"
  by (simp add: SQLiteStorage_get_db_def create_table_if_not_exists_def split: option.splits)

lemma map_of_dict_setitem: "map_of (dict_setitem k v d) = (map_of d)(k \<mapsto> v)"
  by (induction d) auto

lemma map_of_dict_update_rev: "map_of (dict_update d other) = map_of d ++ map_of (rev other)"
  unfolding dict_update_def
proof (induction other arbitrary: d)
  case Nil then show ?case by simp
next
  case (Cons kv other)
  obtain k v where kv: "kv = (k, v)" by (cases kv)
  have "map_of (foldl (\<lambda>acc (k, v). dict_setitem k v acc) d (kv # other))
      = map_of (dict_setitem k v d) ++ map_of (rev other)"
    using Cons.IH[of "dict_setitem k v d"] by (simp add: kv)
  also have "\<dots> = map_of d ++ map_of (rev (kv # other))"
    by (simp add: kv map_of_dict_setitem)
  finally show ?case .
qed

lemma map_of_rev_distinct:
  assumes "distinct (map fst xs)"
  shows "map_of (rev xs) = map_of xs"
proof (rule ext)
  fix k
  have d': "distinct (map fst (rev xs))"
    using assms by (simp add: rev_map[symmetric])
  show "map_of (rev xs) k = map_of xs k"
  proof (cases "map_of xs k")
    case None
    then have "k \<notin> fst ` set xs" by (simp add: map_of_eq_None_iff)
    then have "map_of (rev xs) k = None" by (simp add: map_of_eq_None_iff)
    with None show ?thesis by simp
  next
    case (Some v)
    then have "(k, v) \<in> set (rev xs)" by (auto dest: map_of_SomeD)
    with d' have "map_of (rev xs) k = Some v" by simp
    with Some show ?thesis by simp
  qed
qed

lemma map_of_dict_update:
  "distinct (map fst other) \<Longrightarrow> map_of (dict_update d other) = map_of d ++ map_of other"
  by (simp add: map_of_dict_update_rev map_of_rev_distinct)

lemma keys_dict_setitem:
  "map fst (dict_setitem k v d) = (if k \<in> fst ` set d then map fst d else map fst d @ [k])"
  by (induction d) (auto simp: rev_image_eqI)

lemma distinct_dict_setitem:
  "distinct (map fst d) \<Longrightarrow> distinct (map fst (dict_setitem k v d))"
  by (simp add: keys_dict_setitem)

lemma distinct_dict_update:
  "distinct (map fst d) \<Longrightarrow> distinct (map fst (dict_update d other))"
  unfolding dict_update_def
  by (induction other arbitrary: d) (auto simp: distinct_dict_setitem)

lemma SQLiteStorage_get_data_result:
  assumes "check_address chat user = Inr (c, u)"
    and "aiogram_data (SQLiteStorage_get_db self) = Some rows"
  shows "SQLiteStorage_get_data jsonpickle chat user default' self =
           ((case select_where c u rows of
               Some result \<Rightarrow> decode jsonpickle result
             | None \<Rightarrow> Inr (default_or_empty default')), SQLiteStorage_get_db self)"
  using assms by (simp add: SQLiteStorage_get_data_def split: option.splits)

lemma PGStorage_get_data_result:
  assumes "check_address chat user = Inr (c, u)"
    and "aiogram_data (SQLiteStorage_get_db self) = Some rows"
  shows "PGStorage_get_data jsonpickle chat user default' self =
           ((case select_where c u rows of
               Some result \<Rightarrow> if result \<noteq> [] then decode jsonpickle result
                                else Inr (default_or_empty default')
             | None \<Rightarrow> Inr (default_or_empty default')), SQLiteStorage_get_db self)"
  using assms by (simp add: PGStorage_get_data_def PGStorage_get_db_eq split: option.splits)

lemma SQLiteStorage_get_bucket_result:
  assumes "check_address chat user = Inr (c, u)"
    and "aiogram_bucket (SQLiteStorage_get_db self) = Some rows"
  shows "SQLiteStorage_get_bucket jsonpickle chat user default' self =
           ((case select_where c u rows of
               Some result \<Rightarrow> decode jsonpickle result
             | None \<Rightarrow> Inr (default_or_empty default')), SQLiteStorage_get_db self)"
  using assms by (simp add: SQLiteStorage_get_bucket_def split: option.splits)

lemma PGStorage_get_bucket_result:
  assumes "check_address chat user = Inr (c, u)"
    and "aiogram_bucket (SQLiteStorage_get_db self) = Some rows"
  shows "PGStorage_get_bucket jsonpickle chat user default' self =
           ((case select_where c u rows of
               Some result \<Rightarrow> if result \<noteq> [] then decode jsonpickle result
                                else Inr (default_or_empty default')
             | None \<Rightarrow> Inr (default_or_empty default')), SQLiteStorage_get_db self)"
  using assms by (simp add: PGStorage_get_bucket_def PGStorage_get_db_eq split: option.splits)

lemma SQLiteStorage_set_data_truthy:
  assumes "check_address chat user = Inr (c, u)"
    and "aiogram_data (SQLiteStorage_get_db self) = Some rows"
    and "M \<noteq> []"
  shows "SQLiteStorage_set_data jsonpickle chat user (Some M) self =
           (Inr (), (SQLiteStorage_get_db self)
              \<lparr>aiogram_data := Some (insert_on_conflict u c (encode jsonpickle (PDict M)) rows)\<rparr>)"
  using assms by (simp add: SQLiteStorage_set_data_def truthy_def pyval_of_def)


lemma SQLiteStorage_set_bucket_result:
  assumes "check_address chat user = Inr (c, u)"
    and "aiogram_bucket (SQLiteStorage_get_db self) = Some rows"
  shows "SQLiteStorage_set_bucket jsonpickle chat user bucket self =
           (Inr (), (SQLiteStorage_get_db self)
              \<lparr>aiogram_bucket := Some (insert_on_conflict u c (encode jsonpickle (pyval_of bucket)) rows)\<rparr>)"
  using assms by (simp add: SQLiteStorage_set_bucket_def)

section \<open>Where the two classes agree\<close>

lemma select_where_nonempty:
  "\<forall>u c. (u, c, []) \<notin> set rows \<Longrightarrow> select_where chat user rows \<noteq> Some []"
  by (auto dest: select_where_Some_mem)

lemma rows_of_get_db_Some:
  "aiogram_state (SQLiteStorage_get_db self) = Some rows \<Longrightarrow> rows_of (aiogram_state self) = rows"
  "aiogram_data (SQLiteStorage_get_db self) = Some rows \<Longrightarrow> rows_of (aiogram_data self) = rows"
  "aiogram_bucket (SQLiteStorage_get_db self) = Some rows \<Longrightarrow> rows_of (aiogram_bucket self) = rows"
  using rows_of_get_db[of self] by (simp_all add: rows_of_def)

lemma PGStorage_get_state_agrees:
  assumes "\<forall>u c. (u, c, []) \<notin> set (rows_of (aiogram_state self))"
  shows "PGStorage_get_state chat user default' self = SQLiteStorage_get_state chat user default' self"
proof (cases "check_address chat user")
  case (Inl e)
  then show ?thesis
    by (simp add: PGStorage_get_state_def SQLiteStorage_get_state_def)
next
  case (Inr k)
  obtain c u where k: "k = (c, u)" by (cases k)
  show ?thesis
  proof (cases "aiogram_state (SQLiteStorage_get_db self)")
    case None
    with Inr k show ?thesis
      by (simp add: PGStorage_get_state_def SQLiteStorage_get_state_def PGStorage_get_db_eq)
  next
    case (Some rows)
    with assms have "select_where c u rows \<noteq> Some []"
      by (simp add: rows_of_get_db_Some select_where_nonempty)
    with Inr k Some show ?thesis
      by (cases "select_where c u rows")
         (simp_all add: PGStorage_get_state_def SQLiteStorage_get_state_def PGStorage_get_db_eq)
  qed
qed

lemma PGStorage_get_data_agrees:
  assumes "\<forall>u c. (u, c, []) \<notin> set (rows_of (aiogram_data self))"
  shows "PGStorage_get_data jsonpickle chat user default' self =
         SQLiteStorage_get_data jsonpickle chat user default' self"
proof (cases "check_address chat user")
  case (Inl e)
  then show ?thesis
    by (simp add: PGStorage_get_data_def SQLiteStorage_get_data_def)
next
  case (Inr k)
  obtain c u where k: "k = (c, u)" by (cases k)
  show ?thesis
  proof (cases "aiogram_data (SQLiteStorage_get_db self)")
    case None
    with Inr k show ?thesis
      by (simp add: PGStorage_get_data_def SQLiteStorage_get_data_def PGStorage_get_db_eq)
  next
    case (Some rows)
    with assms have "select_where c u rows \<noteq> Some []"
      by (simp add: rows_of_get_db_Some select_where_nonempty)
    with Inr k Some show ?thesis
      by (cases "select_where c u rows")
         (simp_all add: PGStorage_get_data_def SQLiteStorage_get_data_def PGStorage_get_db_eq)
  qed
qed

lemma PGStorage_get_bucket_agrees:
  assumes "\<forall>u c. (u, c, []) \<notin> set (rows_of (aiogram_bucket self))"
  shows "PGStorage_get_bucket jsonpickle chat user default' self =
         SQLiteStorage_get_bucket jsonpickle chat user default' self"
proof (cases "check_address chat user")
  case (Inl e)
  then show ?thesis
    by (simp add: PGStorage_get_bucket_def SQLiteStorage_get_bucket_def)
next
  case (Inr k)
  obtain c u where k: "k = (c, u)" by (cases k)
  show ?thesis
  proof (cases "aiogram_bucket (SQLiteStorage_get_db self)")
    case None
    with Inr k show ?thesis
      by (simp add: PGStorage_get_bucket_def SQLiteStorage_get_bucket_def PGStorage_get_db_eq)
  next
    case (Some rows)
    with assms have "select_where c u rows \<noteq> Some []"
      by (simp add: rows_of_get_db_Some select_where_nonempty)
    with Inr k Some show ?thesis
      by (cases "select_where c u rows")
         (simp_all add: PGStorage_get_bucket_def SQLiteStorage_get_bucket_def PGStorage_get_db_eq)
  qed
qed

lemma PGStorage_update_data_agrees:
  assumes "\<forall>u c. (u, c, []) \<notin> set (rows_of (aiogram_data self))"
  shows "PGStorage_update_data jsonpickle chat user data kwargs self =
         SQLiteStorage_update_data jsonpickle chat user data kwargs self"
  unfolding PGStorage_update_data_def SQLiteStorage_update_data_def
    PGStorage_get_data_agrees[OF assms] PGStorage_set_data_eq
  by (rule refl)

lemma PGStorage_update_bucket_agrees:
  assumes "\<forall>u c. (u, c, []) \<notin> set (rows_of (aiogram_bucket self))"
  shows "PGStorage_update_bucket jsonpickle chat user bucket kwargs self =
         SQLiteStorage_update_bucket jsonpickle chat user bucket kwargs self"
  unfolding PGStorage_update_bucket_def SQLiteStorage_update_bucket_def
    PGStorage_get_bucket_agrees[OF assms] PGStorage_set_bucket_eq
  by (rule refl)

section \<open>The reference serialiser reads back what it writes\<close>

subsection \<open>Strings and numbers\<close>

declare dumps_nat.simps [simp del]





lemma is_digit_char_of: "k < 10 \<Longrightarrow> is_digit (char_of (48 + (k::nat)))"
  by (simp add: is_digit_def)

lemma dumps_nat_digits: "\<forall>c \<in> set (dumps_nat n). is_digit c"
proof (induction n rule: dumps_nat.induct)
  case (1 n)
  show ?case
  proof (cases "n < 10")
    case True
    then show ?thesis
      by (subst dumps_nat.simps) (simp add: is_digit_char_of)
  next
    case False
    with 1 have "\<forall>c \<in> set (dumps_nat (n div 10)). is_digit c" by simp
    moreover have "is_digit (char_of (48 + n mod 10))"
      by (rule is_digit_char_of) simp
    ultimately show ?thesis using False
      by (subst dumps_nat.simps) simp
  qed
qed

lemma dumps_nat_nonempty: "dumps_nat n \<noteq> []"
  by (subst dumps_nat.simps) simp





lemma takeWhile_dumps_nat:
  "number_ends rest \<Longrightarrow> takeWhile is_digit (dumps_nat n @ rest) = dumps_nat n"
  using dumps_nat_digits[of n]
  by (cases rest) (simp_all add: number_ends_def takeWhile_append2 takeWhile_eq_all_conv[THEN iffD2])

lemma dropWhile_dumps_nat:
  "number_ends rest \<Longrightarrow> dropWhile is_digit (dumps_nat n @ rest) = rest"
  using dumps_nat_digits[of n]
  by (cases rest) (simp_all add: number_ends_def dropWhile_append2)

lemma hd_dumps_nat_not_minus: "hd (dumps_nat n) \<noteq> CHR ''-''"
  using dumps_nat_digits[of n] dumps_nat_nonempty[of n]
  by (cases "dumps_nat n") (auto simp: is_digit_def)














subsection \<open>Floats in the shortest form\<close>

lemma wf_float_digits: "wf_float ds decpt \<Longrightarrow> list_all is_digit ds \<and> ds \<noteq> []"
  by (simp add: wf_float_def)

lemma wf_float_nonzero:
  assumes "wf_float ds decpt" and "ds \<noteq> ''0''"
  shows "hd ds \<noteq> CHR ''0''" and "last ds \<noteq> CHR ''0''"
  using assms by (simp_all add: wf_float_def)





subsection \<open>A printed float is read back\<close>









subsection \<open>Values, lists and dictionaries\<close>


lemma skip_ws_space [simp]: "skip_ws (CHR '' '' # s) = skip_ws s"
  by (simp add: skip_ws_def is_ws_def)

lemma loads_value_space [simp]: "loads_value n (CHR '' '' # s) = loads_value n s"
  by (cases n) simp_all

lemma loads_elements_space [simp]: "loads_elements n (CHR '' '' # s) = loads_elements n s"
  by (cases n) simp_all

lemma loads_items_space [simp]: "loads_items n (CHR '' '' # s) = loads_items n s"
  by (cases n) simp_all










lemma number_ends_simps [simp]:
  "number_ends []" "number_ends (CHR '','' # s)" "number_ends (CHR '']'' # s)"
  "number_ends (CHR ''}'' # s)"
  by (simp_all add: number_ends_def is_digit_def)

lemma ws_simps [simp]:
  "\<not> is_ws CHR ''n''" "\<not> is_ws CHR ''t''" "\<not> is_ws CHR ''f''" "\<not> is_ws quote"
  "\<not> is_ws CHR ''[''" "\<not> is_ws CHR ''{''" "\<not> is_ws CHR '']''" "\<not> is_ws CHR ''}''"
  "\<not> is_ws CHR '',''" "\<not> is_ws CHR '':''"
  by (simp_all add: is_ws_def quote_def)

lemma quote_neq [simp]:
  "quote \<noteq> CHR ''n''" "quote \<noteq> CHR ''t''" "quote \<noteq> CHR ''f''" "quote \<noteq> CHR ''}''"
  by (simp_all add: quote_def)















lemma json_codec_float_examples:
  "encode json_codec
     (PList [PFloat False ''15'' 1, PFloat True ''1'' (- 4), PFloat False ''1'' 17,
             PFloat False ''0'' 1, PFloat False ''1'' 3, PFloat False ''12345'' 2,
             PFloat True ''1'' (- 2), PFloat False ''125'' 30]) =
     ''[1.5, -1e-05, 1e+16, 0.0, 100.0, 12.345, -0.001, 1.25e+29]''"
  "decode json_codec ''[1.50, 1E2, 0.000, 123.456e+5, 1, -0]'' =
     Inr (PList [PFloat False ''15'' 1, PFloat False ''1'' 3, PFloat False ''0'' 1,
                 PFloat False ''123456'' 8, PInt 1, PInt 0])"
  "decode json_codec (CHR ''{'' # quote # ''x'' @ quote # '': 1.5}'') =
     Inr (PDict [(''x'', PFloat False ''15'' 1)])"
  by code_simp+

declare dumps_nat.simps [simp]

section \<open>Writing a mapping and reading it back, for any serialisation pair\<close>


section \<open>The claims\<close>

subsection \<open>Clearing a state\<close>

text \<open>
  Claim C2. For a valid (chat, user) key, \<open>set_state\<close> with no state deletes exactly the
  rows of the state table whose stored chat and stored user both equal the key, in
  both storage classes, and raises nothing. When the row of that user is stored under
  another chat, nothing is deleted: the call returns normally and the storage is the
  one the connection step left, with the row still in it.
\<close>

theorem set_state_None_deletes_by_chat_and_user:
  assumes "check_address chat user = Inr (c, u)"
    and "aiogram_state (SQLiteStorage_get_db self) = Some rows"
  shows "SQLiteStorage_set_state chat user None self =
           (Inr (), (SQLiteStorage_get_db self)
              \<lparr>aiogram_state := Some (filter (\<lambda>r. \<not> (fst (snd r) = c \<and> fst r = u)) rows)\<rparr>)
       \<and> PGStorage_set_state chat user None self =
           (Inr (), (PGStorage_get_db self)
              \<lparr>aiogram_state := Some (filter (\<lambda>r. \<not> (fst (snd r) = c \<and> fst r = u)) rows)\<rparr>)
       \<and> (distinct (map fst rows) \<and> (u, c', w) \<in> set rows \<and> c' \<noteq> c \<longrightarrow>
             SQLiteStorage_set_state chat user None self = (Inr (), SQLiteStorage_get_db self)
           \<and> PGStorage_set_state chat user None self = (Inr (), PGStorage_get_db self)
           \<and> (u, c', w) \<in> set (rows_of (aiogram_state (SQLiteStorage_get_db self))))"
proof -
  have del: "SQLiteStorage_set_state chat user None self =
      (Inr (), (SQLiteStorage_get_db self)\<lparr>aiogram_state := Some (delete_where c u rows)\<rparr>)"
    using assms by (simp add: SQLiteStorage_set_state_def)
  have same: "(SQLiteStorage_get_db self)\<lparr>aiogram_state := Some (delete_where c u rows)\<rparr>
        = SQLiteStorage_get_db self"
    if "distinct (map fst rows)" "(u, c', w) \<in> set rows" "c' \<noteq> c"
  proof -
    from that have "select_where c u rows = None"
      by (rule select_where_other_chat)
    then have "delete_where c u rows = rows"
      by (simp add: select_where_None_iff delete_where_absent)
    with assms(2) show ?thesis by simp
  qed
  have still: "(u, c', w) \<in> set (rows_of (aiogram_state (SQLiteStorage_get_db self)))"
    if "(u, c', w) \<in> set rows"
    using that assms(2) by (simp add: rows_of_def)
  show ?thesis
    using del same still
    by (auto simp: PGStorage_set_state_eq PGStorage_get_db_eq delete_where_filter)
qed

theorem set_state_None_deletes_by_chat_and_user_witness:
  "SQLiteStorage_set_state (Some 5) (Some 100) None example_storage = (Inr (), example_storage)
   \<and> PGStorage_set_state (Some 5) (Some 200) None example_storage =
       (Inr (), example_storage\<lparr>aiogram_state := Some [(100, 7, ''menu'')]\<rparr>)"
proof -
  have k1: "check_address (Some 5) (Some 100) = Inr (5, 100)"
    and k2: "check_address (Some 5) (Some 200) = Inr (5, 200)"
    by (simp_all add: check_address_def)
  have t: "aiogram_state (SQLiteStorage_get_db example_storage) =
             Some [(100, 7, ''menu''), (200, 5, ''form'')]"
    by (simp add: SQLiteStorage_get_db_def example_storage_def)
  have g: "SQLiteStorage_get_db example_storage = example_storage"
    by (simp add: SQLiteStorage_get_db_def example_storage_def)
  from set_state_None_deletes_by_chat_and_user[OF k1 t, of 7 "''menu''"]
       set_state_None_deletes_by_chat_and_user[OF k2 t, of 7 "''menu''"]
  show ?thesis
    by (simp add: g PGStorage_get_db_eq) (simp add: example_storage_def)
qed

subsection \<open>Setting a state under another chat\<close>

text \<open>
  Claim C9. Let the user have a state row stored under chat \<open>c1\<close> (the primary key makes
  it the only row of that user). \<open>set_state\<close> with a state \<open>s\<close> and a key whose chat
  \<open>c2\<close> differs from \<open>c1\<close> changes the state column of that row only: the row becomes
  (user, \<open>c1\<close>, \<open>s\<close>) and every other row stays. A \<open>get_state\<close> with chat \<open>c2\<close> that
  follows finds no row and returns the resolved default, in both storage classes.
\<close>

theorem set_state_other_chat_keeps_stored_chat:
  assumes "check_address chat user = Inr (c2, u)"
    and "aiogram_state (SQLiteStorage_get_db self) = Some rows"
    and "distinct (map fst rows)"
    and "(u, c1, s0) \<in> set rows"
    and "c1 \<noteq> c2"
  shows "SQLiteStorage_set_state chat user (Some s) self =
           (Inr (), (SQLiteStorage_get_db self)
              \<lparr>aiogram_state := Some (map (\<lambda>r. if fst r = u then (u, c1, s) else r) rows)\<rparr>)
       \<and> PGStorage_set_state chat user (Some s) self =
           (Inr (), (PGStorage_get_db self)
              \<lparr>aiogram_state := Some (map (\<lambda>r. if fst r = u then (u, c1, s) else r) rows)\<rparr>)
       \<and> fst (SQLiteStorage_get_state chat user default'
                (snd (SQLiteStorage_set_state chat user (Some s) self))) = Inr (resolve_state default')
       \<and> fst (PGStorage_get_state chat user default'
                (snd (PGStorage_set_state chat user (Some s) self))) = Inr (resolve_state default')"
proof -
  let ?rows' = "insert_on_conflict u c2 s rows"
  let ?db' = "(SQLiteStorage_get_db self)\<lparr>aiogram_state := Some ?rows'\<rparr>"
  have set: "SQLiteStorage_set_state chat user (Some s) self = (Inr (), ?db')"
    using assms(1,2) by (simp add: SQLiteStorage_set_state_def resolve_state_def)
  have rows': "?rows' = map (\<lambda>r. if fst r = u then (u, c1, s) else r) rows"
    using assms(3,4) by (rule insert_on_conflict_stored_chat)
  have "distinct (map fst ?rows')"
    using assms(3) by (rule distinct_insert_on_conflict)
  moreover have "(u, c1, s) \<in> set ?rows'"
    using assms(4,3) by (rule insert_on_conflict_keeps_chat)
  ultimately have sel: "select_where c2 u ?rows' = None"
    using assms(5) by (rule select_where_other_chat)
  have get1: "fst (SQLiteStorage_get_state chat user default' ?db') = Inr (resolve_state default')"
    using assms(1) sel by (simp add: SQLiteStorage_get_state_def)
  have get2: "fst (PGStorage_get_state chat user default' ?db') = Inr (resolve_state default')"
    using assms(1) sel by (simp add: PGStorage_get_state_def PGStorage_get_db_eq)
  show ?thesis
    using set get1 get2 by (simp add: rows' PGStorage_set_state_eq PGStorage_get_db_eq)
qed

theorem set_state_other_chat_keeps_stored_chat_witness:
  "SQLiteStorage_set_state (Some 5) (Some 100) (Some ''quiz'') example_storage =
     (Inr (), example_storage\<lparr>aiogram_state := Some [(100, 7, ''quiz''), (200, 5, ''form'')]\<rparr>)
   \<and> fst (SQLiteStorage_get_state (Some 5) (Some 100) (Some ''idle'')
            (snd (SQLiteStorage_set_state (Some 5) (Some 100) (Some ''quiz'') example_storage))) =
       Inr (Some ''idle'')
   \<and> fst (PGStorage_get_state (Some 5) (Some 100) None
            (snd (PGStorage_set_state (Some 5) (Some 100) (Some ''quiz'') example_storage))) =
       Inr None"
proof -
  have k: "check_address (Some 5) (Some 100) = Inr (5, 100)"
    by (simp add: check_address_def)
  have t: "aiogram_state (SQLiteStorage_get_db example_storage) =
             Some [(100, 7, ''menu''), (200, 5, ''form'')]"
    by (simp add: SQLiteStorage_get_db_def example_storage_def)
  have d: "distinct (map fst [(100::int, 7::int, ''menu''), (200, 5, ''form'')])"
    by simp
  have m: "(100, 7, ''menu'') \<in> set [(100::int, 7::int, ''menu''), (200, 5, ''form'')]"
    by simp
  have g: "SQLiteStorage_get_db example_storage = example_storage"
    by (simp add: SQLiteStorage_get_db_def example_storage_def)
  have ne: "(7::int) \<noteq> 5" by simp
  have a: "SQLiteStorage_set_state (Some 5) (Some 100) (Some ''quiz'') example_storage =
       (Inr (), example_storage\<lparr>aiogram_state := Some [(100, 7, ''quiz''), (200, 5, ''form'')]\<rparr>)
     \<and> fst (SQLiteStorage_get_state (Some 5) (Some 100) (Some ''idle'')
            (snd (SQLiteStorage_set_state (Some 5) (Some 100) (Some ''quiz'') example_storage))) =
       Inr (Some ''idle'')"
    using set_state_other_chat_keeps_stored_chat[OF k t d m ne, of "''quiz''" "Some ''idle''"]
    by (elim conjE) (simp add: g resolve_state_def)
  have b: "fst (PGStorage_get_state (Some 5) (Some 100) None
            (snd (PGStorage_set_state (Some 5) (Some 100) (Some ''quiz'') example_storage))) =
       Inr None"
    using set_state_other_chat_keeps_stored_chat[OF k t d m ne, of "''quiz''" None]
    by (elim conjE) (simp add: resolve_state_def)
  from a b show ?thesis by blast
qed

subsection \<open>Listing the states\<close>

text \<open>
  Claim C7, as the source has it. When the state table exists, \<open>get_states_list\<close>
  returns one pair of integers per row of the state table, the row's chat first and its
  user second, in row order, in both storage classes. A pair (chat, user) is in the
  list exactly when the table has a row of that user stored under that chat, which is
  exactly when \<open>SQLiteStorage_get_state\<close> finds a state for that key. A storage object
  that opens its connection in this call lists the state rows of whatever database it
  meets. On a store without state rows, setting a state for chat 1, user 100 and then
  for chat 2, user 200 makes the list \<open>[(1, 100), (2, 200)]\<close>. When the state table does
  not exist on the open connection, \<open>get_states_list\<close> raises the driver's error for the
  missing table and returns no list; this is so on every storage object on which
  \<open>reset_all\<close> has run, whatever \<open>reset_all\<close> returned.
\<close>

theorem get_states_list_pairs:
  "(aiogram_state (SQLiteStorage_get_db self) = Some rows \<longrightarrow>
      SQLiteStorage_get_states_list self =
        (Inr (map (\<lambda>r. (fst (snd r), fst r)) rows), SQLiteStorage_get_db self)
    \<and> PGStorage_get_states_list self =
        (Inr (map (\<lambda>r. (fst (snd r), fst r)) rows), PGStorage_get_db self)
    \<and> (\<forall>c u. (c, u) \<in> set (map (\<lambda>r. (fst (snd r), fst r)) rows) \<longleftrightarrow> (\<exists>s. (u, c, s) \<in> set rows))
    \<and> (\<forall>c u. (c, u) \<in> set (map (\<lambda>r. (fst (snd r), fst r)) rows) \<longleftrightarrow>
          (\<exists>s. fst (SQLiteStorage_get_state (Some c) (Some u) None self) = Inr (Some s))))
   \<and> (\<not> db_connected self \<longrightarrow>
       fst (SQLiteStorage_get_states_list self) =
         Inr (map (\<lambda>r. (fst (snd r), fst r)) (rows_of (aiogram_state self)))
     \<and> fst (PGStorage_get_states_list self) =
         Inr (map (\<lambda>r. (fst (snd r), fst r)) (rows_of (aiogram_state self))))
   \<and> (aiogram_state (SQLiteStorage_get_db self) = Some [] \<longrightarrow>
       fst (SQLiteStorage_get_states_list
              (snd (SQLiteStorage_set_state (Some 2) (Some 200) (Some s2)
                 (snd (SQLiteStorage_set_state (Some 1) (Some 100) (Some s1) self)))))
         = Inr [(1, 100), (2, 200)]
     \<and> fst (PGStorage_get_states_list
              (snd (PGStorage_set_state (Some 2) (Some 200) (Some s2)
                 (snd (PGStorage_set_state (Some 1) (Some 100) (Some s1) self)))))
         = Inr [(1, 100), (2, 200)])
   \<and> (aiogram_state (SQLiteStorage_get_db self) = None \<longrightarrow>
       SQLiteStorage_get_states_list self =
         (Inl (NoSuchTable ''aiogram_state''), SQLiteStorage_get_db self)
     \<and> PGStorage_get_states_list self =
         (Inl (NoSuchTable ''aiogram_state''), PGStorage_get_db self))
   \<and> fst (SQLiteStorage_get_states_list (snd (SQLiteStorage_reset_all full self))) =
       Inl (NoSuchTable ''aiogram_state'')
   \<and> fst (PGStorage_get_states_list (snd (PGStorage_reset_all full self))) =
       Inl (NoSuchTable ''aiogram_state'')"
proof -
  have fresh: "fst (SQLiteStorage_get_states_list self) =
         Inr (map (\<lambda>r. (fst (snd r), fst r)) (rows_of (aiogram_state self)))"
    if "\<not> db_connected self"
    using that
    by (cases "aiogram_state self")
       (simp_all add: SQLiteStorage_get_states_list_def SQLiteStorage_get_db_def
          create_table_if_not_exists_def rows_of_def case_prod_unfold)
  have list: "SQLiteStorage_get_states_list self =
        (Inr (map (\<lambda>r. (fst (snd r), fst r)) rows), SQLiteStorage_get_db self)"
    if "aiogram_state (SQLiteStorage_get_db self) = Some rows"
    using that by (simp add: SQLiteStorage_get_states_list_def case_prod_unfold)
  have mem: "(c, u) \<in> set (map (\<lambda>r. (fst (snd r), fst r)) rows) \<longleftrightarrow> (\<exists>s. (u, c, s) \<in> set rows)"
    for c u by force
  have active: "(\<exists>s. (u, c, s) \<in> set rows) \<longleftrightarrow>
      (\<exists>s. fst (SQLiteStorage_get_state (Some c) (Some u) None self) = Inr (Some s))"
    if "aiogram_state (SQLiteStorage_get_db self) = Some rows" for c u
  proof (cases "select_where c u rows")
    case None
    then have no: "\<nexists>s. (u, c, s) \<in> set rows"
      by (simp add: select_where_None_iff)
    from None that
    have "fst (SQLiteStorage_get_state (Some c) (Some u) None self) = Inr None"
      by (simp add: SQLiteStorage_get_state_def check_address_def resolve_state_def)
    with no show ?thesis by simp
  next
    case (Some w)
    then have "(u, c, w) \<in> set rows"
      by (rule select_where_Some_mem)
    moreover from Some that
    have "fst (SQLiteStorage_get_state (Some c) (Some u) None self) = Inr (Some w)"
      by (simp add: SQLiteStorage_get_state_def check_address_def)
    ultimately show ?thesis by auto
  qed
  have example: "fst (SQLiteStorage_get_states_list
              (snd (SQLiteStorage_set_state (Some 2) (Some 200) (Some s2)
                 (snd (SQLiteStorage_set_state (Some 1) (Some 100) (Some s1) self)))))
         = Inr [(1, 100), (2, 200)]"
    if "aiogram_state (SQLiteStorage_get_db self) = Some []"
    using that
    by (simp add: SQLiteStorage_get_states_list_def SQLiteStorage_set_state_def
          check_address_def resolve_state_def)
  have dropped: "SQLiteStorage_get_states_list self =
         (Inl (NoSuchTable ''aiogram_state''), SQLiteStorage_get_db self)"
    if "aiogram_state (SQLiteStorage_get_db self) = None"
    using that by (simp add: SQLiteStorage_get_states_list_def)
  have "db_connected (snd (SQLiteStorage_reset_all full self))
      \<and> aiogram_state (snd (SQLiteStorage_reset_all full self)) = None"
    by (simp add: SQLiteStorage_reset_all_def Let_def split: option.splits)
  then have "aiogram_state (SQLiteStorage_get_db (snd (SQLiteStorage_reset_all full self))) = None"
    by (simp add: get_db_of_connected)
  then have after_reset:
    "fst (SQLiteStorage_get_states_list (snd (SQLiteStorage_reset_all full self))) =
       Inl (NoSuchTable ''aiogram_state'')"
    by (simp add: SQLiteStorage_get_states_list_def)
  show ?thesis
    using list mem active fresh example dropped after_reset
    by (simp add: PGStorage_get_states_list_eq PGStorage_get_db_eq PGStorage_set_state_eq
          PGStorage_reset_all_eq)
qed

theorem get_states_list_pairs_witness:
  "SQLiteStorage_get_states_list example_storage = (Inr [(7, 100), (5, 200)], example_storage)
   \<and> fst (PGStorage_get_states_list
        (snd (PGStorage_set_state (Some 2) (Some 200) (Some ''form'')
           (snd (PGStorage_set_state (Some 1) (Some 100) (Some ''menu'') fresh_storage))))) =
       Inr [(1, 100), (2, 200)]
   \<and> SQLiteStorage_get_states_list (example_storage\<lparr>aiogram_state := None\<rparr>) =
       (Inl (NoSuchTable ''aiogram_state''), example_storage\<lparr>aiogram_state := None\<rparr>)
   \<and> fst (PGStorage_get_states_list (snd (PGStorage_reset_all True fresh_storage))) =
       Inl (NoSuchTable ''aiogram_state'')"
proof -
  have t: "aiogram_state (SQLiteStorage_get_db example_storage) =
             Some [(100, 7, ''menu''), (200, 5, ''form'')]"
    by (simp add: SQLiteStorage_get_db_def example_storage_def)
  have g: "SQLiteStorage_get_db example_storage = example_storage"
    by (simp add: SQLiteStorage_get_db_def example_storage_def)
  have f: "aiogram_state (SQLiteStorage_get_db fresh_storage) = Some []"
    by (simp add: SQLiteStorage_get_db_def fresh_storage_def create_table_if_not_exists_def)
  have g': "SQLiteStorage_get_db (example_storage\<lparr>aiogram_state := None\<rparr>) =
              example_storage\<lparr>aiogram_state := None\<rparr>"
    by (simp add: SQLiteStorage_get_db_def example_storage_def)
  have n: "aiogram_state (SQLiteStorage_get_db (example_storage\<lparr>aiogram_state := None\<rparr>)) = None"
    by (simp add: g')
  from get_states_list_pairs[of example_storage "[(100, 7, ''menu''), (200, 5, ''form'')]"]
       get_states_list_pairs[of fresh_storage "[]" "''form''" "''menu''" True]
  have w1: "SQLiteStorage_get_states_list example_storage = (Inr [(7, 100), (5, 200)], example_storage)
   \<and> fst (PGStorage_get_states_list
        (snd (PGStorage_set_state (Some 2) (Some 200) (Some ''form'')
           (snd (PGStorage_set_state (Some 1) (Some 100) (Some ''menu'') fresh_storage))))) =
       Inr [(1, 100), (2, 200)]
   \<and> fst (PGStorage_get_states_list (snd (PGStorage_reset_all True fresh_storage))) =
       Inl (NoSuchTable ''aiogram_state'')"
    using t g f by simp
  from get_states_list_pairs[of "example_storage\<lparr>aiogram_state := None\<rparr>"] n
  have w2: "SQLiteStorage_get_states_list (example_storage\<lparr>aiogram_state := None\<rparr>) =
       (Inl (NoSuchTable ''aiogram_state''), example_storage\<lparr>aiogram_state := None\<rparr>)"
    by (simp add: g')
  from w1 w2 show ?thesis by blast
qed

text \<open>
  Claim C7 as worded, for every store state, fails on the store that \<open>reset_all\<close>
  leaves behind: no state row is left, so no user holds a state and the list of the
  claim is empty, but \<open>get_states_list\<close> raises on the missing state table in both
  storage classes.
\<close>

theorem get_states_list_after_reset_all_counterexample:
  "fst (SQLiteStorage_reset_all False example_storage) = Inr ()
   \<and> rows_of (aiogram_state (snd (SQLiteStorage_reset_all False example_storage))) = []
   \<and> fst (SQLiteStorage_get_states_list (snd (SQLiteStorage_reset_all False example_storage))) =
       Inl (NoSuchTable ''aiogram_state'')
   \<and> fst (PGStorage_reset_all False example_storage) = Inr ()
   \<and> fst (PGStorage_get_states_list (snd (PGStorage_reset_all False example_storage))) =
       Inl (NoSuchTable ''aiogram_state'')"
  by (simp add: PGStorage_reset_all_eq PGStorage_get_states_list_eq SQLiteStorage_reset_all_def
        SQLiteStorage_get_states_list_def SQLiteStorage_get_db_def example_storage_def rows_of_def)

subsection \<open>Buckets are upserted, empty data is deleted\<close>

text \<open>
  Claim C3. For a valid (chat, user) key and with the bucket and data tables present,
  \<open>set_bucket\<close> returns normally for every bucket argument, \<open>None\<close> and the empty
  dictionary included, and the bucket table afterwards has a row of the user that holds
  the encoding of the argument; the users of the table are those it had before, with
  the user appended when new, so no row is deleted. \<open>set_data\<close> with \<open>None\<close> or the
  empty dictionary (the arguments that are not truthy) deletes the data rows that match
  the key instead. Both storage classes behave so.
\<close>

theorem set_bucket_always_upserts:
  assumes "check_address chat user = Inr (c, u)"
    and "aiogram_bucket (SQLiteStorage_get_db self) = Some brows"
    and "aiogram_data (SQLiteStorage_get_db self) = Some drows"
  shows "(\<exists>rows'. SQLiteStorage_set_bucket jsonpickle chat user bucket self =
            (Inr (), (SQLiteStorage_get_db self)\<lparr>aiogram_bucket := Some rows'\<rparr>)
          \<and> PGStorage_set_bucket jsonpickle chat user bucket self =
            (Inr (), (PGStorage_get_db self)\<lparr>aiogram_bucket := Some rows'\<rparr>)
          \<and> (\<exists>c'. (u, c', encode jsonpickle (pyval_of bucket)) \<in> set rows')
          \<and> map fst rows' = (if u \<in> fst ` set brows then map fst brows else map fst brows @ [u]))
       \<and> (\<not> truthy data \<longrightarrow>
            SQLiteStorage_set_data jsonpickle chat user data self =
              (Inr (), (SQLiteStorage_get_db self)
                 \<lparr>aiogram_data := Some (filter (\<lambda>r. \<not> (fst (snd r) = c \<and> fst r = u)) drows)\<rparr>)
          \<and> PGStorage_set_data jsonpickle chat user data self =
              (Inr (), (PGStorage_get_db self)
                 \<lparr>aiogram_data := Some (filter (\<lambda>r. \<not> (fst (snd r) = c \<and> fst r = u)) drows)\<rparr>))
       \<and> \<not> truthy None \<and> \<not> truthy (Some [])"
proof -
  let ?rows' = "insert_on_conflict u c (encode jsonpickle (pyval_of bucket)) brows"
  have b: "SQLiteStorage_set_bucket jsonpickle chat user bucket self =
            (Inr (), (SQLiteStorage_get_db self)\<lparr>aiogram_bucket := Some ?rows'\<rparr>)"
    using assms(1,2) by (simp add: SQLiteStorage_set_bucket_def)
  have row: "\<exists>c'. (u, c', encode jsonpickle (pyval_of bucket)) \<in> set ?rows'"
    by (rule insert_on_conflict_has_row)
  have users: "map fst ?rows' = (if u \<in> fst ` set brows then map fst brows else map fst brows @ [u])"
    by (rule map_fst_insert_on_conflict)
  have d: "SQLiteStorage_set_data jsonpickle chat user data self =
              (Inr (), (SQLiteStorage_get_db self)
                 \<lparr>aiogram_data := Some (filter (\<lambda>r. \<not> (fst (snd r) = c \<and> fst r = u)) drows)\<rparr>)"
    if "\<not> truthy data"
    using assms(1,3) that by (simp add: SQLiteStorage_set_data_def delete_where_filter)
  have t: "\<not> truthy None \<and> \<not> truthy (Some [])"
    by (simp add: truthy_def)
  from b row users have "\<exists>rows'. SQLiteStorage_set_bucket jsonpickle chat user bucket self =
            (Inr (), (SQLiteStorage_get_db self)\<lparr>aiogram_bucket := Some rows'\<rparr>)
          \<and> PGStorage_set_bucket jsonpickle chat user bucket self =
            (Inr (), (PGStorage_get_db self)\<lparr>aiogram_bucket := Some rows'\<rparr>)
          \<and> (\<exists>c'. (u, c', encode jsonpickle (pyval_of bucket)) \<in> set rows')
          \<and> map fst rows' = (if u \<in> fst ` set brows then map fst brows else map fst brows @ [u])"
    unfolding PGStorage_set_bucket_eq PGStorage_get_db_eq by blast
  with d t show ?thesis
    unfolding PGStorage_set_data_eq PGStorage_get_db_eq by blast
qed

theorem set_bucket_always_upserts_witness:
  "SQLiteStorage_set_bucket json_codec (Some 7) (Some 100) None example_storage =
     (Inr (), example_storage\<lparr>aiogram_bucket := Some [(100, 7, ''null'')]\<rparr>)
   \<and> SQLiteStorage_set_bucket json_codec (Some 7) (Some 300) (Some []) example_storage =
     (Inr (), example_storage
        \<lparr>aiogram_bucket := Some [(100, 7, json_dumps (PDict [(''k'', PInt 1)])), (300, 7, ''{}'')]\<rparr>)
   \<and> PGStorage_set_data json_codec (Some 7) (Some 100) (Some []) example_storage =
     (Inr (), example_storage\<lparr>aiogram_data := Some []\<rparr>)
   \<and> SQLiteStorage_set_data json_codec (Some 7) (Some 100) None example_storage =
     (Inr (), example_storage\<lparr>aiogram_data := Some []\<rparr>)"
proof -
  have k1: "check_address (Some 7) (Some 100) = Inr (7, 100)"
    and k2: "check_address (Some 7) (Some 300) = Inr (7, 300)"
    by (simp_all add: check_address_def)
  have g: "SQLiteStorage_get_db example_storage = example_storage"
    by (simp add: SQLiteStorage_get_db_def example_storage_def)
  have b: "aiogram_bucket (SQLiteStorage_get_db example_storage) =
             Some [(100, 7, json_dumps (PDict [(''k'', PInt 1)]))]"
    and d: "aiogram_data (SQLiteStorage_get_db example_storage) =
             Some [(100, 7, json_dumps (PDict [(''a'', PInt 1), (''b'', PInt 2)]))]"
    by (simp_all add: g) (simp_all add: example_storage_def)
  have e: "encode json_codec PNone = ''null''" "encode json_codec (PDict []) = ''{}''"
    by (simp_all add: json_codec_def)
  have u1: "SQLiteStorage_set_bucket json_codec (Some 7) (Some 100) None example_storage =
     (Inr (), example_storage\<lparr>aiogram_bucket := Some [(100, 7, ''null'')]\<rparr>)"
    using set_bucket_always_upserts[OF k1 b d, of json_codec None None]
    by (simp add: SQLiteStorage_set_bucket_def k1 g e pyval_of_def)
       (simp add: example_storage_def)
  have u2: "SQLiteStorage_set_bucket json_codec (Some 7) (Some 300) (Some []) example_storage =
     (Inr (), example_storage
        \<lparr>aiogram_bucket := Some [(100, 7, json_dumps (PDict [(''k'', PInt 1)])), (300, 7, ''{}'')]\<rparr>)"
    using set_bucket_always_upserts[OF k2 b d, of json_codec "Some []" None]
    by (simp add: SQLiteStorage_set_bucket_def k2 g e pyval_of_def)
       (simp add: example_storage_def)
  have u3: "PGStorage_set_data json_codec (Some 7) (Some 100) (Some []) example_storage =
     (Inr (), example_storage\<lparr>aiogram_data := Some []\<rparr>)"
    using set_bucket_always_upserts[OF k1 b d, of json_codec None "Some []"]
    by (elim conjE) (simp add: truthy_def g PGStorage_get_db_eq)
  have u4: "SQLiteStorage_set_data json_codec (Some 7) (Some 100) None example_storage =
     (Inr (), example_storage\<lparr>aiogram_data := Some []\<rparr>)"
    using set_bucket_always_upserts[OF k1 b d, of json_codec None None]
    by (elim conjE) (simp add: truthy_def g)
  from u1 u2 u3 u4 show ?thesis by blast
qed

subsection \<open>Dropping the tables\<close>

text \<open>
  Claim C4, as the source has it. \<open>reset_all\<close> with \<open>full = False\<close> leaves no state
  row and leaves the rows of the data and the bucket table as they were, in every
  store state (when the state table is already gone it raises and changes nothing).
  \<open>reset_all\<close> with \<open>full = True\<close> drops the three tables when the three exist at the
  moment the statements run, which is always so when this call opens the connection.
  On a connection whose state table has been dropped it raises at its first statement
  and removes no row. The two storage classes run the same statements.
\<close>

theorem reset_all_rows:
  "rows_of (aiogram_state (snd (SQLiteStorage_reset_all False self))) = []
   \<and> rows_of (aiogram_data (snd (SQLiteStorage_reset_all False self))) = rows_of (aiogram_data self)
   \<and> rows_of (aiogram_bucket (snd (SQLiteStorage_reset_all False self))) = rows_of (aiogram_bucket self)
   \<and> (aiogram_state (SQLiteStorage_get_db self) \<noteq> None \<and>
      aiogram_data (SQLiteStorage_get_db self) \<noteq> None \<and>
      aiogram_bucket (SQLiteStorage_get_db self) \<noteq> None \<longrightarrow>
        SQLiteStorage_reset_all True self =
          (Inr (), (SQLiteStorage_get_db self)
             \<lparr>aiogram_state := None, aiogram_data := None, aiogram_bucket := None\<rparr>))
   \<and> (\<not> db_connected self \<longrightarrow>
        SQLiteStorage_reset_all True self =
          (Inr (), (SQLiteStorage_get_db self)
             \<lparr>aiogram_state := None, aiogram_data := None, aiogram_bucket := None\<rparr>))
   \<and> (aiogram_state (SQLiteStorage_get_db self) = None \<longrightarrow>
        SQLiteStorage_reset_all True self =
          (Inl (NoSuchTable ''aiogram_state''), SQLiteStorage_get_db self))
   \<and> PGStorage_reset_all False self = SQLiteStorage_reset_all False self
   \<and> PGStorage_reset_all True self = SQLiteStorage_reset_all True self"
proof -
  have p1: "rows_of (aiogram_state (snd (SQLiteStorage_reset_all False self))) = []"
    by (cases "aiogram_state (SQLiteStorage_get_db self)")
       (simp_all add: SQLiteStorage_reset_all_def rows_of_def)
  have p2: "rows_of (aiogram_data (snd (SQLiteStorage_reset_all False self))) = rows_of (aiogram_data self)"
    by (cases "aiogram_state (SQLiteStorage_get_db self)")
       (simp_all add: SQLiteStorage_reset_all_def)
  have p3: "rows_of (aiogram_bucket (snd (SQLiteStorage_reset_all False self))) = rows_of (aiogram_bucket self)"
    by (cases "aiogram_state (SQLiteStorage_get_db self)")
       (simp_all add: SQLiteStorage_reset_all_def)
  have p4: "SQLiteStorage_reset_all True self =
          (Inr (), (SQLiteStorage_get_db self)
             \<lparr>aiogram_state := None, aiogram_data := None, aiogram_bucket := None\<rparr>)"
    if "aiogram_state (SQLiteStorage_get_db self) \<noteq> None"
       "aiogram_data (SQLiteStorage_get_db self) \<noteq> None"
       "aiogram_bucket (SQLiteStorage_get_db self) \<noteq> None"
    using that by (auto simp: SQLiteStorage_reset_all_def)
  have p5: "SQLiteStorage_reset_all True self =
          (Inr (), (SQLiteStorage_get_db self)
             \<lparr>aiogram_state := None, aiogram_data := None, aiogram_bucket := None\<rparr>)"
    if "\<not> db_connected self"
    using get_db_fresh_tables[OF that] p4 by blast
  have p6: "SQLiteStorage_reset_all True self =
          (Inl (NoSuchTable ''aiogram_state''), SQLiteStorage_get_db self)"
    if "aiogram_state (SQLiteStorage_get_db self) = None"
    using that by (simp add: SQLiteStorage_reset_all_def)
  show ?thesis
    using p1 p2 p3 p4 p5 p6 unfolding PGStorage_reset_all_eq by blast
qed

theorem reset_all_rows_witness:
  "SQLiteStorage_reset_all True example_storage =
     (Inr (), example_storage\<lparr>aiogram_state := None, aiogram_data := None, aiogram_bucket := None\<rparr>)
   \<and> fst (PGStorage_reset_all True fresh_storage) = Inr ()
   \<and> SQLiteStorage_reset_all True (example_storage\<lparr>aiogram_state := None\<rparr>) =
       (Inl (NoSuchTable ''aiogram_state''), example_storage\<lparr>aiogram_state := None\<rparr>)"
proof -
  have g: "SQLiteStorage_get_db example_storage = example_storage"
    by (simp add: SQLiteStorage_get_db_def example_storage_def)
  have g': "SQLiteStorage_get_db (example_storage\<lparr>aiogram_state := None\<rparr>) =
              example_storage\<lparr>aiogram_state := None\<rparr>"
    by (simp add: SQLiteStorage_get_db_def example_storage_def)
  have t: "aiogram_state example_storage \<noteq> None \<and> aiogram_data example_storage \<noteq> None \<and>
           aiogram_bucket example_storage \<noteq> None"
    by (simp add: example_storage_def)
  have f: "\<not> db_connected fresh_storage"
    by (simp add: fresh_storage_def)
  have w1: "SQLiteStorage_reset_all True example_storage =
     (Inr (), example_storage\<lparr>aiogram_state := None, aiogram_data := None, aiogram_bucket := None\<rparr>)"
    using reset_all_rows[of example_storage] t by (simp add: g)
  have w2: "fst (PGStorage_reset_all True fresh_storage) = Inr ()"
    using reset_all_rows[of fresh_storage] f by simp
  have w3: "SQLiteStorage_reset_all True (example_storage\<lparr>aiogram_state := None\<rparr>) =
       (Inl (NoSuchTable ''aiogram_state''), example_storage\<lparr>aiogram_state := None\<rparr>)"
    using reset_all_rows[of "example_storage\<lparr>aiogram_state := None\<rparr>"] by (simp add: g')
  from w1 w2 w3 show ?thesis by blast
qed

text \<open>
  Claim C4 as worded, for every store state, fails on the store that \<open>reset_all\<close> with
  \<open>full = False\<close> leaves behind: a following \<open>reset_all\<close> with \<open>full = True\<close> raises on
  the missing state table and the data and bucket rows are still there.
\<close>

theorem reset_all_full_after_partial_counterexample:
  "fst (SQLiteStorage_reset_all True (snd (SQLiteStorage_reset_all False example_storage))) =
     Inl (NoSuchTable ''aiogram_state'')
   \<and> rows_of (aiogram_data
        (snd (SQLiteStorage_reset_all True (snd (SQLiteStorage_reset_all False example_storage))))) =
       [(100, 7, json_dumps (PDict [(''a'', PInt 1), (''b'', PInt 2)]))]
   \<and> fst (PGStorage_reset_all True (snd (PGStorage_reset_all False example_storage))) =
     Inl (NoSuchTable ''aiogram_state'')
   \<and> rows_of (aiogram_bucket
        (snd (PGStorage_reset_all True (snd (PGStorage_reset_all False example_storage))))) =
       [(100, 7, json_dumps (PDict [(''k'', PInt 1)]))]"
  by (simp add: PGStorage_reset_all_eq SQLiteStorage_reset_all_def SQLiteStorage_get_db_def
        example_storage_def rows_of_def)

subsection \<open>Resetting a store whose tables are gone\<close>

text \<open>
  Claim C6, as the source has it. \<open>reset_all\<close> does not tolerate a missing table. It
  returns normally exactly when the state table exists and, for \<open>full = True\<close>, the
  data and the bucket table exist as well. Otherwise the error of the first statement
  that meets a missing table reaches the caller, and the tables dropped before that
  statement stay dropped. The two storage classes run the same statements.
\<close>

theorem reset_all_raises_on_absent_table:
  "(fst (SQLiteStorage_reset_all full self) = Inr () \<longleftrightarrow>
      aiogram_state (SQLiteStorage_get_db self) \<noteq> None \<and>
      (full \<longrightarrow> aiogram_data (SQLiteStorage_get_db self) \<noteq> None \<and>
                aiogram_bucket (SQLiteStorage_get_db self) \<noteq> None))
   \<and> (aiogram_state (SQLiteStorage_get_db self) = None \<longrightarrow>
        SQLiteStorage_reset_all full self =
          (Inl (NoSuchTable ''aiogram_state''), SQLiteStorage_get_db self))
   \<and> (aiogram_state (SQLiteStorage_get_db self) \<noteq> None \<and>
      aiogram_data (SQLiteStorage_get_db self) = None \<longrightarrow>
        SQLiteStorage_reset_all True self =
          (Inl (NoSuchTable ''aiogram_data''), (SQLiteStorage_get_db self)\<lparr>aiogram_state := None\<rparr>))
   \<and> (aiogram_state (SQLiteStorage_get_db self) \<noteq> None \<and>
      aiogram_data (SQLiteStorage_get_db self) \<noteq> None \<and>
      aiogram_bucket (SQLiteStorage_get_db self) = None \<longrightarrow>
        SQLiteStorage_reset_all True self =
          (Inl (NoSuchTable ''aiogram_bucket''),
           (SQLiteStorage_get_db self)\<lparr>aiogram_state := None, aiogram_data := None\<rparr>))
   \<and> PGStorage_reset_all full self = SQLiteStorage_reset_all full self"
proof -
  have ok: "fst (SQLiteStorage_reset_all full self) = Inr () \<longleftrightarrow>
      aiogram_state (SQLiteStorage_get_db self) \<noteq> None \<and>
      (full \<longrightarrow> aiogram_data (SQLiteStorage_get_db self) \<noteq> None \<and>
                aiogram_bucket (SQLiteStorage_get_db self) \<noteq> None)"
    by (cases "aiogram_state (SQLiteStorage_get_db self)";
        cases "aiogram_data (SQLiteStorage_get_db self)";
        cases "aiogram_bucket (SQLiteStorage_get_db self)"; cases full)
       (simp_all add: SQLiteStorage_reset_all_def)
  have e1: "SQLiteStorage_reset_all full self =
          (Inl (NoSuchTable ''aiogram_state''), SQLiteStorage_get_db self)"
    if "aiogram_state (SQLiteStorage_get_db self) = None"
    using that by (simp add: SQLiteStorage_reset_all_def)
  have e2: "SQLiteStorage_reset_all True self =
          (Inl (NoSuchTable ''aiogram_data''), (SQLiteStorage_get_db self)\<lparr>aiogram_state := None\<rparr>)"
    if "aiogram_state (SQLiteStorage_get_db self) \<noteq> None"
       "aiogram_data (SQLiteStorage_get_db self) = None"
    using that by (auto simp: SQLiteStorage_reset_all_def)
  have e3: "SQLiteStorage_reset_all True self =
          (Inl (NoSuchTable ''aiogram_bucket''),
           (SQLiteStorage_get_db self)\<lparr>aiogram_state := None, aiogram_data := None\<rparr>)"
    if "aiogram_state (SQLiteStorage_get_db self) \<noteq> None"
       "aiogram_data (SQLiteStorage_get_db self) \<noteq> None"
       "aiogram_bucket (SQLiteStorage_get_db self) = None"
    using that by (auto simp: SQLiteStorage_reset_all_def)
  show ?thesis
    using ok e1 e2 e3 unfolding PGStorage_reset_all_eq by blast
qed

theorem reset_all_raises_on_absent_table_witness:
  "fst (SQLiteStorage_reset_all True example_storage) = Inr ()
   \<and> fst (SQLiteStorage_reset_all False (example_storage\<lparr>aiogram_data := None\<rparr>)) = Inr ()
   \<and> PGStorage_reset_all True (example_storage\<lparr>aiogram_data := None\<rparr>) =
       (Inl (NoSuchTable ''aiogram_data''),
        example_storage\<lparr>aiogram_data := None, aiogram_state := None\<rparr>)"
proof -
  have g: "SQLiteStorage_get_db example_storage = example_storage"
    by (simp add: SQLiteStorage_get_db_def example_storage_def)
  have g': "SQLiteStorage_get_db (example_storage\<lparr>aiogram_data := None\<rparr>) =
              example_storage\<lparr>aiogram_data := None\<rparr>"
    by (simp add: SQLiteStorage_get_db_def example_storage_def)
  have t: "aiogram_state example_storage \<noteq> None \<and> aiogram_data example_storage \<noteq> None \<and>
           aiogram_bucket example_storage \<noteq> None"
    by (simp add: example_storage_def)
  have w1: "fst (SQLiteStorage_reset_all True example_storage) = Inr ()"
    using reset_all_raises_on_absent_table[of True example_storage] t by (simp add: g)
  have w2: "fst (SQLiteStorage_reset_all False (example_storage\<lparr>aiogram_data := None\<rparr>)) = Inr ()"
    using reset_all_raises_on_absent_table[of False "example_storage\<lparr>aiogram_data := None\<rparr>"] t
    by (simp add: g')
  have w3: "PGStorage_reset_all True (example_storage\<lparr>aiogram_data := None\<rparr>) =
       (Inl (NoSuchTable ''aiogram_data''),
        example_storage\<lparr>aiogram_data := None, aiogram_state := None\<rparr>)"
    using reset_all_raises_on_absent_table[of True "example_storage\<lparr>aiogram_data := None\<rparr>"] t
    by (simp add: g')
  from w1 w2 w3 show ?thesis by blast
qed

text \<open>
  Claim C6 as worded fails after a first \<open>reset_all\<close> on the same storage object: the
  second call raises.
\<close>

theorem reset_all_twice_counterexample:
  "fst (SQLiteStorage_reset_all True (snd (SQLiteStorage_reset_all True fresh_storage))) =
     Inl (NoSuchTable ''aiogram_state'')
   \<and> fst (PGStorage_reset_all False (snd (PGStorage_reset_all False example_storage))) =
     Inl (NoSuchTable ''aiogram_state'')"
  by (simp add: PGStorage_reset_all_eq SQLiteStorage_reset_all_def SQLiteStorage_get_db_def
        example_storage_def fresh_storage_def create_table_if_not_exists_def)

subsection \<open>Merging into the stored data\<close>

text \<open>
  Claim C5. For a valid (chat, user) key and with the data table present,
  \<open>update_data\<close> reads the mapping stored for the key with the empty mapping as
  default (it is the empty mapping when no row matches), updates it with the partial
  mapping (the empty one when \<open>None\<close> is passed) and then with the keyword overrides, and
  hands the result to \<open>set_data\<close> for the same key. A merged mapping that is not empty
  is written with the upsert statement. The merge is shallow: the merged mapping looks
  a key up in the overrides first, then in the partial mapping, then in the stored
  one. With \<open>{"a": 1, "b": 2}\<close> stored, updating with \<open>{"b": 3, "c": 4}\<close> stores
  \<open>{"a": 1, "b": 3, "c": 4}\<close>, and \<open>get_data\<close> returns it.
\<close>

theorem update_data_merges:
  assumes "check_address chat user = Inr (c, u)"
    and "aiogram_data (SQLiteStorage_get_db self) = Some rows"
  shows "(select_where c u rows = None \<longrightarrow>
            SQLiteStorage_get_data jsonpickle chat user (Some []) self =
              (Inr (PDict []), SQLiteStorage_get_db self))
       \<and> (fst (SQLiteStorage_get_data jsonpickle chat user (Some []) self) = Inr (PDict cur) \<longrightarrow>
            SQLiteStorage_update_data jsonpickle chat user data kwargs self =
              SQLiteStorage_set_data jsonpickle chat user
                (Some (dict_update (dict_update cur (case data of None \<Rightarrow> [] | Some d \<Rightarrow> d)) kwargs))
                (SQLiteStorage_get_db self))
       \<and> (fst (PGStorage_get_data jsonpickle chat user (Some []) self) = Inr (PDict cur) \<longrightarrow>
            PGStorage_update_data jsonpickle chat user data kwargs self =
              PGStorage_set_data jsonpickle chat user
                (Some (dict_update (dict_update cur (case data of None \<Rightarrow> [] | Some d \<Rightarrow> d)) kwargs))
                (PGStorage_get_db self))
       \<and> (merged \<noteq> [] \<longrightarrow>
            SQLiteStorage_set_data jsonpickle chat user (Some merged) (SQLiteStorage_get_db self) =
              (Inr (), (SQLiteStorage_get_db self)
                 \<lparr>aiogram_data :=
                    Some (insert_on_conflict u c (encode jsonpickle (PDict merged)) rows)\<rparr>))
       \<and> (distinct (map fst partial) \<and> distinct (map fst overrides) \<longrightarrow>
            map_of (dict_update (dict_update cur partial) overrides) =
              map_of cur ++ map_of partial ++ map_of overrides)
       \<and> SQLiteStorage_update_data json_codec (Some 7) (Some 100)
            (Some [(''b'', PInt 3), (''c'', PInt 4)]) [] example_storage =
           (Inr (), example_storage
              \<lparr>aiogram_data :=
                 Some [(100, 7, json_dumps (PDict [(''a'', PInt 1), (''b'', PInt 3), (''c'', PInt 4)]))]\<rparr>)
       \<and> fst (SQLiteStorage_get_data json_codec (Some 7) (Some 100) None
              (snd (SQLiteStorage_update_data json_codec (Some 7) (Some 100)
                      (Some [(''b'', PInt 3), (''c'', PInt 4)]) [] example_storage))) =
           Inr (PDict [(''a'', PInt 1), (''b'', PInt 3), (''c'', PInt 4)])"
proof -
  note get = SQLiteStorage_get_data_result[OF assms, of jsonpickle "Some []"]
  note pget = PGStorage_get_data_result[OF assms, of jsonpickle "Some []"]
  have absent: "SQLiteStorage_get_data jsonpickle chat user (Some []) self =
              (Inr (PDict []), SQLiteStorage_get_db self)"
    if "select_where c u rows = None"
    using that by (simp add: get default_or_empty_def truthy_def)
  have upd: "SQLiteStorage_update_data jsonpickle chat user data kwargs self =
              SQLiteStorage_set_data jsonpickle chat user
                (Some (dict_update (dict_update cur (case data of None \<Rightarrow> [] | Some d \<Rightarrow> d)) kwargs))
                (SQLiteStorage_get_db self)"
    if "fst (SQLiteStorage_get_data jsonpickle chat user (Some []) self) = Inr (PDict cur)"
  proof -
    from that get
    have "SQLiteStorage_get_data jsonpickle chat user (Some []) self =
            (Inr (PDict cur), SQLiteStorage_get_db self)"
      by (simp add: prod_eq_iff)
    then show ?thesis
      by (simp add: SQLiteStorage_update_data_def)
  qed
  have pupd: "PGStorage_update_data jsonpickle chat user data kwargs self =
              PGStorage_set_data jsonpickle chat user
                (Some (dict_update (dict_update cur (case data of None \<Rightarrow> [] | Some d \<Rightarrow> d)) kwargs))
                (PGStorage_get_db self)"
    if "fst (PGStorage_get_data jsonpickle chat user (Some []) self) = Inr (PDict cur)"
  proof -
    from that pget
    have "PGStorage_get_data jsonpickle chat user (Some []) self =
            (Inr (PDict cur), PGStorage_get_db self)"
      by (simp add: prod_eq_iff PGStorage_get_db_eq)
    then show ?thesis
      by (simp add: PGStorage_update_data_def)
  qed
  have wr: "SQLiteStorage_set_data jsonpickle chat user (Some merged) (SQLiteStorage_get_db self) =
              (Inr (), (SQLiteStorage_get_db self)
                 \<lparr>aiogram_data :=
                    Some (insert_on_conflict u c (encode jsonpickle (PDict merged)) rows)\<rparr>)"
    if "merged \<noteq> []"
    using SQLiteStorage_set_data_truthy[of chat user c u "SQLiteStorage_get_db self" rows merged jsonpickle]
      assms that by simp
  have mo: "map_of (dict_update (dict_update cur partial) overrides) =
              map_of cur ++ map_of partial ++ map_of overrides"
    if "distinct (map fst partial)" "distinct (map fst overrides)"
    using that by (simp add: map_of_dict_update)
  have ex1: "SQLiteStorage_update_data json_codec (Some 7) (Some 100)
            (Some [(''b'', PInt 3), (''c'', PInt 4)]) [] example_storage =
           (Inr (), example_storage
              \<lparr>aiogram_data :=
                 Some [(100, 7, json_dumps (PDict [(''a'', PInt 1), (''b'', PInt 3), (''c'', PInt 4)]))]\<rparr>)"
    by code_simp
  have ex2: "fst (SQLiteStorage_get_data json_codec (Some 7) (Some 100) None
              (snd (SQLiteStorage_update_data json_codec (Some 7) (Some 100)
                      (Some [(''b'', PInt 3), (''c'', PInt 4)]) [] example_storage))) =
           Inr (PDict [(''a'', PInt 1), (''b'', PInt 3), (''c'', PInt 4)])"
    by code_simp
  show ?thesis
    using absent upd pupd wr mo ex1 ex2 by blast
qed

theorem update_data_merges_witness:
  "SQLiteStorage_update_data json_codec (Some 7) (Some 100)
       (Some [(''b'', PInt 3), (''c'', PInt 4)]) [(''d'', PBool True)] example_storage =
     SQLiteStorage_set_data json_codec (Some 7) (Some 100)
       (Some [(''a'', PInt 1), (''b'', PInt 3), (''c'', PInt 4), (''d'', PBool True)]) example_storage
   \<and> SQLiteStorage_update_data json_codec (Some 7) (Some 300) None [(''d'', PBool True)]
       example_storage =
     SQLiteStorage_set_data json_codec (Some 7) (Some 300) (Some [(''d'', PBool True)])
       example_storage"
proof -
  have k1: "check_address (Some 7) (Some 100) = Inr (7, 100)"
    and k2: "check_address (Some 7) (Some 300) = Inr (7, 300)"
    by (simp_all add: check_address_def)
  have g: "SQLiteStorage_get_db example_storage = example_storage"
    by (simp add: SQLiteStorage_get_db_def example_storage_def)
  have d: "aiogram_data (SQLiteStorage_get_db example_storage) =
             Some [(100, 7, json_dumps (PDict [(''a'', PInt 1), (''b'', PInt 2)]))]"
    by (simp add: g) (simp add: example_storage_def)
  have cur: "fst (SQLiteStorage_get_data json_codec (Some 7) (Some 100) (Some []) example_storage) =
               Inr (PDict [(''a'', PInt 1), (''b'', PInt 2)])"
    by code_simp
  have none: "fst (SQLiteStorage_get_data json_codec (Some 7) (Some 300) (Some []) example_storage) =
               Inr (PDict [])"
    by code_simp
  have m1: "dict_update (dict_update [(''a'', PInt 1), (''b'', PInt 2)]
                [(''b'', PInt 3), (''c'', PInt 4)]) [(''d'', PBool True)] =
              [(''a'', PInt 1), (''b'', PInt 3), (''c'', PInt 4), (''d'', PBool True)]"
    by (simp add: dict_update_def)
  have m2: "dict_update (dict_update [] []) [(''d'', PBool True)] = [(''d'', PBool True)]"
    by (simp add: dict_update_def)
  have w1: "SQLiteStorage_update_data json_codec (Some 7) (Some 100)
       (Some [(''b'', PInt 3), (''c'', PInt 4)]) [(''d'', PBool True)] example_storage =
     SQLiteStorage_set_data json_codec (Some 7) (Some 100)
       (Some [(''a'', PInt 1), (''b'', PInt 3), (''c'', PInt 4), (''d'', PBool True)]) example_storage"
  proof -
    from update_data_merges[OF k1 d, where jsonpickle = json_codec
        and cur = "[(''a'', PInt 1), (''b'', PInt 2)]"
        and data = "Some [(''b'', PInt 3), (''c'', PInt 4)]" and kwargs = "[(''d'', PBool True)]"]
    have "fst (SQLiteStorage_get_data json_codec (Some 7) (Some 100) (Some []) example_storage) =
            Inr (PDict [(''a'', PInt 1), (''b'', PInt 2)]) \<longrightarrow>
          SQLiteStorage_update_data json_codec (Some 7) (Some 100)
            (Some [(''b'', PInt 3), (''c'', PInt 4)]) [(''d'', PBool True)] example_storage =
          SQLiteStorage_set_data json_codec (Some 7) (Some 100)
            (Some (dict_update (dict_update [(''a'', PInt 1), (''b'', PInt 2)]
               (case Some [(''b'', PInt 3), (''c'', PInt 4)] of None \<Rightarrow> [] | Some d \<Rightarrow> d))
               [(''d'', PBool True)]))
            (SQLiteStorage_get_db example_storage)"
      by blast
    with cur show ?thesis
      by (simp add: g m1)
  qed
  have w2: "SQLiteStorage_update_data json_codec (Some 7) (Some 300) None [(''d'', PBool True)]
       example_storage =
     SQLiteStorage_set_data json_codec (Some 7) (Some 300) (Some [(''d'', PBool True)])
       example_storage"
  proof -
    from update_data_merges[OF k2 d, where jsonpickle = json_codec and cur = "[]"
        and data = None and kwargs = "[(''d'', PBool True)]"]
    have "fst (SQLiteStorage_get_data json_codec (Some 7) (Some 300) (Some []) example_storage) =
            Inr (PDict []) \<longrightarrow>
          SQLiteStorage_update_data json_codec (Some 7) (Some 300) None [(''d'', PBool True)]
            example_storage =
          SQLiteStorage_set_data json_codec (Some 7) (Some 300)
            (Some (dict_update (dict_update [] (case None of None \<Rightarrow> [] | Some d \<Rightarrow> d))
               [(''d'', PBool True)]))
            (SQLiteStorage_get_db example_storage)"
      by blast
    with none show ?thesis
      by (simp add: g m2)
  qed
  from w1 w2 show ?thesis by blast
qed

subsection \<open>Storing and reading back a mapping\<close>




subsection \<open>A bucket set to \<^verbatim>\<open>None\<close>\<close>

text \<open>
  Claim C10, as the source has it. For a valid key and with the bucket table present,
  \<open>set_bucket\<close> with \<open>None\<close> returns normally and leaves a row of the user that holds
  the encoding of \<open>None\<close>. When the user has no bucket row stored under another chat
  and the codec decodes that text to \<open>None\<close>, the row is stored under the key's chat and
  a following \<open>get_bucket\<close> for the key returns \<open>None\<close>, not a mapping and not the
  default (for the asyncpg class, provided the encoded text is not empty). When the
  user has a bucket row under another chat, that row keeps its chat and \<open>get_bucket\<close>
  for the key returns the default, or the empty mapping when the default is \<open>None\<close> or
  empty.
\<close>

theorem set_bucket_None_then_get_bucket:
  assumes "check_address chat user = Inr (c, u)"
    and "aiogram_bucket (SQLiteStorage_get_db self) = Some rows"
  shows "fst (SQLiteStorage_set_bucket jsonpickle chat user None self) = Inr ()
       \<and> (\<exists>c'. (u, c', encode jsonpickle PNone) \<in>
              set (rows_of (aiogram_bucket (snd (SQLiteStorage_set_bucket jsonpickle chat user None self)))))
       \<and> PGStorage_set_bucket jsonpickle chat user None self =
           SQLiteStorage_set_bucket jsonpickle chat user None self
       \<and> (distinct (map fst rows) \<and> (\<forall>c' w. (u, c', w) \<in> set rows \<longrightarrow> c' = c) \<and>
          decode jsonpickle (encode jsonpickle PNone) = Inr PNone \<longrightarrow>
            (u, c, encode jsonpickle PNone) \<in>
              set (rows_of (aiogram_bucket (snd (SQLiteStorage_set_bucket jsonpickle chat user None self))))
          \<and> fst (SQLiteStorage_get_bucket jsonpickle chat user default'
                   (snd (SQLiteStorage_set_bucket jsonpickle chat user None self))) = Inr PNone
          \<and> (encode jsonpickle PNone \<noteq> [] \<longrightarrow>
               fst (PGStorage_get_bucket jsonpickle chat user default'
                      (snd (SQLiteStorage_set_bucket jsonpickle chat user None self))) = Inr PNone))
       \<and> (distinct (map fst rows) \<and> (u, c1, w) \<in> set rows \<and> c1 \<noteq> c \<longrightarrow>
            (u, c1, encode jsonpickle PNone) \<in>
              set (rows_of (aiogram_bucket (snd (SQLiteStorage_set_bucket jsonpickle chat user None self))))
          \<and> fst (SQLiteStorage_get_bucket jsonpickle chat user default'
                   (snd (SQLiteStorage_set_bucket jsonpickle chat user None self))) =
              Inr (default_or_empty default')
          \<and> fst (PGStorage_get_bucket jsonpickle chat user default'
                   (snd (SQLiteStorage_set_bucket jsonpickle chat user None self))) =
              Inr (default_or_empty default'))"
proof -
  let ?txt = "encode jsonpickle PNone"
  let ?rows' = "insert_on_conflict u c ?txt rows"
  let ?db' = "(SQLiteStorage_get_db self)\<lparr>aiogram_bucket := Some ?rows'\<rparr>"
  have set: "SQLiteStorage_set_bucket jsonpickle chat user None self = (Inr (), ?db')"
    using SQLiteStorage_set_bucket_result[OF assms, of jsonpickle None]
    by (simp add: pyval_of_def)
  have row: "\<exists>c'. (u, c', ?txt) \<in> set ?rows'"
    by (rule insert_on_conflict_has_row)
  have tbl: "aiogram_bucket (SQLiteStorage_get_db ?db') = Some ?rows'"
    by simp
  note get = SQLiteStorage_get_bucket_result[OF assms(1) tbl, of jsonpickle default']
  note pget = PGStorage_get_bucket_result[OF assms(1) tbl, of jsonpickle default']
  have same: "(u, c, ?txt) \<in> set ?rows'
      \<and> fst (SQLiteStorage_get_bucket jsonpickle chat user default' ?db') = Inr PNone
      \<and> (?txt \<noteq> [] \<longrightarrow> fst (PGStorage_get_bucket jsonpickle chat user default' ?db') = Inr PNone)"
    if "distinct (map fst rows)" "\<forall>c' w. (u, c', w) \<in> set rows \<longrightarrow> c' = c"
       "decode jsonpickle ?txt = Inr PNone"
  proof -
    have sel: "select_where c u ?rows' = Some ?txt"
      using that(1,2) by (rule select_where_insert_on_conflict)
    then have "(u, c, ?txt) \<in> set ?rows'"
      by (rule select_where_Some_mem)
    with sel get pget that(3) show ?thesis by simp
  qed
  have other: "(u, c1, ?txt) \<in> set ?rows'
      \<and> fst (SQLiteStorage_get_bucket jsonpickle chat user default' ?db') =
          Inr (default_or_empty default')
      \<and> fst (PGStorage_get_bucket jsonpickle chat user default' ?db') =
          Inr (default_or_empty default')"
    if "distinct (map fst rows)" "(u, c1, w) \<in> set rows" "c1 \<noteq> c"
  proof -
    have "distinct (map fst ?rows')"
      using that(1) by (rule distinct_insert_on_conflict)
    moreover have mem: "(u, c1, ?txt) \<in> set ?rows'"
      using that(2,1) by (rule insert_on_conflict_keeps_chat)
    ultimately have "select_where c u ?rows' = None"
      using that(3) by (rule select_where_other_chat)
    with mem get pget show ?thesis by simp
  qed
  show ?thesis
    using set row same other
    by (simp add: PGStorage_set_bucket_eq rows_of_def)
qed

theorem set_bucket_None_then_get_bucket_witness:
  "fst (SQLiteStorage_get_bucket json_codec (Some 7) (Some 100) (Some [(''d'', PInt 0)])
          (snd (SQLiteStorage_set_bucket json_codec (Some 7) (Some 100) None example_storage))) =
     Inr PNone
   \<and> fst (PGStorage_get_bucket json_codec (Some 7) (Some 100) (Some [(''d'', PInt 0)])
          (snd (SQLiteStorage_set_bucket json_codec (Some 7) (Some 100) None example_storage))) =
     Inr PNone
   \<and> fst (SQLiteStorage_get_bucket json_codec (Some 5) (Some 100) None
          (snd (SQLiteStorage_set_bucket json_codec (Some 5) (Some 100) None example_storage))) =
     Inr (PDict [])"
proof -
  let ?rows = "[(100::int, 7::int, json_dumps (PDict [(''k'', PInt 1)]))]"
  have k: "check_address (Some 7) (Some 100) = Inr (7, 100)"
    and k': "check_address (Some 5) (Some 100) = Inr (5, 100)"
    by (simp_all add: check_address_def)
  have g: "SQLiteStorage_get_db example_storage = example_storage"
    by (simp add: SQLiteStorage_get_db_def example_storage_def)
  have b: "aiogram_bucket (SQLiteStorage_get_db example_storage) = Some ?rows"
    by (simp add: g) (simp add: example_storage_def)
  have pk: "distinct (map fst ?rows)"
    by simp
  have same_chat: "\<forall>c' w. (100, c', w) \<in> set ?rows \<longrightarrow> c' = 7"
    by simp
  have stale: "(100, 7, json_dumps (PDict [(''k'', PInt 1)])) \<in> set ?rows"
    and ne: "(7::int) \<noteq> 5"
    by simp_all
  have rt: "decode json_codec (encode json_codec PNone) = Inr PNone"
    by code_simp
  have nonempty: "encode json_codec PNone \<noteq> []"
    by (simp add: json_codec_def)
  have t: "default_or_empty None = PDict []"
    by (simp add: default_or_empty_def truthy_def)
  from set_bucket_None_then_get_bucket[OF k b, where jsonpickle = json_codec
      and default' = "Some [(''d'', PInt 0)]"] pk same_chat rt nonempty
  have w1: "fst (SQLiteStorage_get_bucket json_codec (Some 7) (Some 100) (Some [(''d'', PInt 0)])
          (snd (SQLiteStorage_set_bucket json_codec (Some 7) (Some 100) None example_storage))) =
     Inr PNone
   \<and> fst (PGStorage_get_bucket json_codec (Some 7) (Some 100) (Some [(''d'', PInt 0)])
          (snd (SQLiteStorage_set_bucket json_codec (Some 7) (Some 100) None example_storage))) =
     Inr PNone"
    by blast
  from set_bucket_None_then_get_bucket[OF k' b, where jsonpickle = json_codec
      and default' = None and ?c1.0 = 7 and w = "json_dumps (PDict [(''k'', PInt 1)])"]
    pk stale ne
  have w2: "fst (SQLiteStorage_get_bucket json_codec (Some 5) (Some 100) None
          (snd (SQLiteStorage_set_bucket json_codec (Some 5) (Some 100) None example_storage))) =
     Inr (PDict [])"
    unfolding t by blast
  from w1 w2 show ?thesis by blast
qed

text \<open>
  Claim C10 as worded fails when the user already has a bucket row under another
  chat: the encoding of \<open>None\<close> is stored in that row, and \<open>get_bucket\<close> for the new key
  returns the supplied default.
\<close>

theorem set_bucket_None_then_get_bucket_counterexample:
  "decode json_codec (encode json_codec PNone) = Inr PNone
   \<and> SQLiteStorage_set_bucket json_codec (Some 5) (Some 100) None example_storage =
       (Inr (), example_storage\<lparr>aiogram_bucket := Some [(100, 7, ''null'')]\<rparr>)
   \<and> fst (SQLiteStorage_get_bucket json_codec (Some 5) (Some 100) (Some [(''d'', PInt 0)])
            (snd (SQLiteStorage_set_bucket json_codec (Some 5) (Some 100) None example_storage))) =
       Inr (PDict [(''d'', PInt 0)])
   \<and> fst (PGStorage_get_bucket json_codec (Some 5) (Some 100) (Some [(''d'', PInt 0)])
            (snd (PGStorage_set_bucket json_codec (Some 5) (Some 100) None example_storage))) =
       Inr (PDict [(''d'', PInt 0)])"
  by code_simp

subsection \<open>The two storage classes side by side\<close>

text \<open>
  Claim C1. The two classes run the same statements: the methods that write and
  \<open>get_states_list\<close> are the same functions, and the methods that read one value agree
  on every store without an empty text (the lemmas above). \<open>get_state\<close>, \<open>get_data\<close>
  and \<open>get_bucket\<close> of the asyncpg class test the truth of the value that was read
  instead of the presence of a row, so they differ from the aiosqlite class on a
  stored text that is empty. For the state column this happens through the interface:
  after \<open>set_state\<close> with the empty string, which leaves the same table contents in
  both classes, \<open>SQLiteStorage.get_state\<close> returns the empty string and
  \<open>PGStorage.get_state\<close> returns the default.
\<close>

theorem get_state_differs_on_empty_state:
  "SQLiteStorage_set_state (Some 1) (Some 100) (Some '''') fresh_storage =
     PGStorage_set_state (Some 1) (Some 100) (Some '''') fresh_storage
   \<and> aiogram_state (snd (SQLiteStorage_set_state (Some 1) (Some 100) (Some '''') fresh_storage)) =
       Some [(100, 1, '''')]
   \<and> fst (SQLiteStorage_get_state (Some 1) (Some 100) (Some ''idle'')
            (snd (SQLiteStorage_set_state (Some 1) (Some 100) (Some '''') fresh_storage))) =
       Inr (Some '''')
   \<and> fst (PGStorage_get_state (Some 1) (Some 100) (Some ''idle'')
            (snd (PGStorage_set_state (Some 1) (Some 100) (Some '''') fresh_storage))) =
       Inr (Some ''idle'')"
  by (simp add: PGStorage_set_state_eq PGStorage_get_state_def SQLiteStorage_get_state_def
        SQLiteStorage_set_state_def PGStorage_get_db_eq SQLiteStorage_get_db_def
        check_address_def resolve_state_def fresh_storage_def create_table_if_not_exists_def)

end
